theory Spec2Isabelle
  imports Complex_Main "HOL-Library.Word" "HOL-Library.AList"
begin

section \<open>SigDigger: the main spectrum panel and the panoramic scan dialog\<close>

text \<open>
  A shallow embedding of \<^verbatim>\<open>Components/PanoramicDialog.cpp\<close> and
  \<^verbatim>\<open>Components/MainSpectrum.cpp\<close>. Widgets are records of the values they hold,
  member functions take the object and return the updated object, signals and message
  boxes are appended to a log kept in the object, and exceptions are values of a sum type.
  The slots run one at a time: a signal that an external widget may emit while one of its
  setters runs is not followed into the slots connected to it.

  Conventions for numbers:
  \<^item> \<^verbatim>\<open>qint64\<close> and \<^verbatim>\<open>int\<close> values are \<open>int\<close>; signed overflow is undefined in
    C++ and is not modelled;
  \<^item> \<^verbatim>\<open>quint64\<close> values are 64-bit words: their arithmetic wraps,
    \<^verbatim>\<open>static_cast<qint64>\<close> of one is \<open>sint\<close> and \<^verbatim>\<open>static_cast<quint64>\<close> of a
    \<^verbatim>\<open>qint64\<close> is \<open>word_of_int\<close>;
  \<^item> \<^verbatim>\<open>float\<close>, \<^verbatim>\<open>double\<close>, \<^verbatim>\<open>SUFLOAT\<close> and \<^verbatim>\<open>SUFREQ\<close> are idealised as
    \<open>real\<close>: rounding is not modelled, conversions to integers truncate towards zero
    as \<^verbatim>\<open>static_cast\<close> does.
\<close>

subsection \<open>Conversions\<close>

text \<open>\<^verbatim>\<open>static_cast<qint64>(double)\<close>: truncation towards zero.\<close>

definition cast_qint64 :: "real \<Rightarrow> int" where
  "cast_qint64 x = (if x < 0 then \<lceil>x\<rceil> else \<lfloor>x\<rfloor>)"

text \<open>\<^verbatim>\<open>static_cast<quint64>(qint64)\<close>: reduction modulo \<open>2 ^ 64\<close>.\<close>

definition cast_quint64 :: "int \<Rightarrow> 64 word" where
  "cast_quint64 x = word_of_int x"

text \<open>\<^verbatim>\<open>static_cast<int>(qint64)\<close>: the low 32 bits, read as two's complement.\<close>

definition cast_int :: "int \<Rightarrow> int" where
  "cast_int x = (x + 2 ^ 31) mod 2 ^ 32 - 2 ^ 31"

text \<open>The C++ quotient \<^verbatim>\<open>a / b\<close> on signed integers rounds towards zero.\<close>

definition cdiv :: "int \<Rightarrow> int \<Rightarrow> int" where
  "cdiv a b = sgn a * sgn b * (\<bar>a\<bar> div \<bar>b\<bar>)"

subsection \<open>Decimal output\<close>

text \<open>What \<^verbatim>\<open>operator<<\<close> and \<^verbatim>\<open>QString::number\<close> print for an integer.\<close>

definition digit_char :: "nat \<Rightarrow> char" where
  "digit_char d = ''0123456789'' ! d"

function show_nat :: "nat \<Rightarrow> string" where
  "show_nat n = (if n < 10 then [digit_char n] else show_nat (n div 10) @ [digit_char (n mod 10)])"
  by pat_completeness auto
termination
  by (relation "measure (\<lambda>n. n)") auto

declare show_nat.simps [simp del]

definition show_int :: "int \<Rightarrow> string" where
  "show_int i = (if i < 0 then CHR ''-'' # show_nat (nat (- i)) else show_nat (nat i))"

definition newline :: string where
  "newline = [CHR 0x0A]"

subsection \<open>The device abstraction\<close>

text \<open>
  \<^verbatim>\<open>Suscan::Source::Device\<close> and its gain descriptions are consumed through their
  getters only; a record holds what the getters return.
\<close>

record GainDescription =
  gd_name :: string
  gd_default :: real

record Device =
  dev_desc :: string
  dev_driver :: string
  dev_minFreq :: real
  dev_maxFreq :: real
  dev_gains :: "GainDescription list"

subsection \<open>SavedSpectrum\<close>

record SavedSpectrum =
  sp_start :: int
  sp_end :: int
  sp_data :: "real list"

text \<open>
  \<^verbatim>\<open>SavedSpectrum::set(start, end, data, size)\<close>: \<^verbatim>\<open>data.assign(data, data + size)\<close>
  copies the first \<open>len\<close> samples of the buffer (\<open>len\<close> is the argument \<^verbatim>\<open>size\<close>).
\<close>

definition SavedSpectrum_set ::
  "SavedSpectrum \<Rightarrow> int \<Rightarrow> int \<Rightarrow> real list \<Rightarrow> nat \<Rightarrow> SavedSpectrum" where
  "SavedSpectrum_set sp start en buf len =
     sp\<lparr>sp_start := start, sp_end := en, sp_data := take len buf\<rparr>"

subsection \<open>The configuration object store\<close>

datatype exception = SuscanException

definition bind_exc :: "exception + 'a \<Rightarrow> ('a \<Rightarrow> exception + 'b) \<Rightarrow> exception + 'b" where
  "bind_exc m f = (case m of Inl e \<Rightarrow> Inl e | Inr x \<Rightarrow> f x)"

datatype field_value = VBool bool | VInt int | VFloat real | VString string

datatype suscan_object =
    OField field_value
  | OObject "(string \<times> suscan_object) list"
  | OSet "suscan_object list"

text \<open>
  The class \<^verbatim>\<open>Suscan::Object\<close> is not part of the two files embedded here; the
  specification describes it as the "structured configuration object store
  (serialize/deserialize typed fields)". In the model an object of type OBJECT is an ordered
  collection of named fields, a SET an ordered collection of objects, and a field holds a
  typed value. Asking something that is not an OBJECT for a field is the malformed case
  and raises \<^verbatim>\<open>Suscan::Exception\<close>.
\<close>

text \<open>
  Modelled from the spec: \<^verbatim>\<open>Suscan::Object::set(name, v)\<close> stores the typed value
  \<open>v\<close> under \<open>name\<close>, replacing a field of that name. The argument is the list
  of fields of an object of type OBJECT.
\<close>

definition Object_set ::
  "(string \<times> suscan_object) list \<Rightarrow> string \<Rightarrow> field_value \<Rightarrow> (string \<times> suscan_object) list" where
  "Object_set fs name v = AList.update name (OField v) fs"

text \<open>
  Modelled from the spec: the field stored under \<open>name\<close> in a
  \<^verbatim>\<open>Suscan::Object\<close>, if any; an exception when the object is not an OBJECT.
\<close>

definition Object_lookup :: "suscan_object \<Rightarrow> string \<Rightarrow> exception + suscan_object option" where
  "Object_lookup obj name =
     (case obj of OObject fs \<Rightarrow> Inr (map_of fs name) | _ \<Rightarrow> Inl SuscanException)"

text \<open>
  Modelled from the spec: \<^verbatim>\<open>Suscan::Object::get(name, dfl)\<close>, one function for each type
  of \<open>dfl\<close>: the value stored under \<open>name\<close> when there is one of that type, and
  \<open>dfl\<close> otherwise.
\<close>

definition Object_get_bool :: "suscan_object \<Rightarrow> string \<Rightarrow> bool \<Rightarrow> exception + bool" where
  "Object_get_bool obj name dfl =
     bind_exc (Object_lookup obj name)
       (\<lambda>r. Inr (case r of Some (OField (VBool b)) \<Rightarrow> b | _ \<Rightarrow> dfl))"

text \<open>Modelled from the spec: \<^verbatim>\<open>Suscan::Object::get\<close> with an integer default.\<close>

definition Object_get_int :: "suscan_object \<Rightarrow> string \<Rightarrow> int \<Rightarrow> exception + int" where
  "Object_get_int obj name dfl =
     bind_exc (Object_lookup obj name)
       (\<lambda>r. Inr (case r of Some (OField (VInt i)) \<Rightarrow> i | _ \<Rightarrow> dfl))"

text \<open>Modelled from the spec: \<^verbatim>\<open>Suscan::Object::get\<close> with a floating-point default.\<close>

definition Object_get_float :: "suscan_object \<Rightarrow> string \<Rightarrow> real \<Rightarrow> exception + real" where
  "Object_get_float obj name dfl =
     bind_exc (Object_lookup obj name)
       (\<lambda>r. Inr (case r of Some (OField (VFloat x)) \<Rightarrow> x | _ \<Rightarrow> dfl))"

text \<open>Modelled from the spec: \<^verbatim>\<open>Suscan::Object::get\<close> with a string default.\<close>

definition Object_get_string :: "suscan_object \<Rightarrow> string \<Rightarrow> string \<Rightarrow> exception + string" where
  "Object_get_string obj name dfl =
     bind_exc (Object_lookup obj name)
       (\<lambda>r. Inr (case r of Some (OField (VString s)) \<Rightarrow> s | _ \<Rightarrow> dfl))"

text \<open>Modelled from the spec: \<^verbatim>\<open>Suscan::Object::getFieldCount()\<close>, the number of fields.\<close>

definition Object_getFieldCount :: "suscan_object \<Rightarrow> nat" where
  "Object_getFieldCount obj = (case obj of OObject fs \<Rightarrow> length fs | _ \<Rightarrow> 0)"

text \<open>
  Modelled from the spec: \<^verbatim>\<open>Suscan::Object::getFieldByIndex(i).name()\<close>, the name of the
  \<open>i\<close>-th field.
\<close>

definition Object_getFieldName :: "suscan_object \<Rightarrow> nat \<Rightarrow> exception + string" where
  "Object_getFieldName obj i =
     (case obj of
        OObject fs \<Rightarrow> if i < length fs then Inr (fst (fs ! i)) else Inl SuscanException
      | _ \<Rightarrow> Inl SuscanException)"

subsection \<open>PanoramicDialogConfig\<close>

text \<open>
  The member \<^verbatim>\<open>gains\<close> is a \<^verbatim>\<open>std::map<std::string, SUFLOAT>\<close>: here an
  association list without repeated keys, read with \<open>map_of\<close> and written with
  \<open>AList.update\<close>. A \<^verbatim>\<open>std::map\<close> is traversed in key order and the list in
  insertion order; the order only decides the order of the fields in the serialized
  object.
\<close>

record PanoramicDialogConfig =
  cfg_fullRange :: bool
  cfg_rangeMin :: real
  cfg_rangeMax :: real
  cfg_panRangeMin :: real
  cfg_panRangeMax :: real
  cfg_lnbFreq :: real
  cfg_device :: string
  cfg_sampRate :: int
  cfg_strategy :: string
  cfg_partitioning :: string
  cfg_palette :: string
  cfg_gains :: "(string \<times> real) list"

text \<open>The key of a gain: \<^verbatim>\<open>"gain." + dev + "." + name\<close>.\<close>

definition fullName :: "string \<Rightarrow> string \<Rightarrow> string" where
  "fullName dev name = ''gain.'' @ dev @ ''.'' @ name"

definition hasGain :: "PanoramicDialogConfig \<Rightarrow> string \<Rightarrow> string \<Rightarrow> bool" where
  "hasGain c dev name = (map_of (cfg_gains c) (fullName dev name) \<noteq> None)"

definition getGain :: "PanoramicDialogConfig \<Rightarrow> string \<Rightarrow> string \<Rightarrow> real" where
  "getGain c dev name =
     (case map_of (cfg_gains c) (fullName dev name) of None \<Rightarrow> 0 | Some v \<Rightarrow> v)"

definition setGain :: "PanoramicDialogConfig \<Rightarrow> string \<Rightarrow> string \<Rightarrow> real \<Rightarrow> PanoramicDialogConfig" where
  "setGain c dev name val = c\<lparr>cfg_gains := AList.update (fullName dev name) val (cfg_gains c)\<rparr>"

text \<open>
  \<^verbatim>\<open>serialize\<close>: the eleven \<^verbatim>\<open>STORE(field)\<close> lines, in their order, then one
  \<^verbatim>\<open>obj.set(p.first, p.second)\<close> for each entry of \<^verbatim>\<open>gains\<close>. The local
  \<^verbatim>\<open>obj\<close> is created with the type OBJECT and is its list of fields here; its class
  name is not modelled.
\<close>

definition serialize_fields :: "PanoramicDialogConfig \<Rightarrow> (string \<times> suscan_object) list" where
  "serialize_fields c =
     Object_set (Object_set (Object_set (Object_set (Object_set (Object_set
       (Object_set (Object_set (Object_set (Object_set (Object_set []
         ''fullRange'' (VBool (cfg_fullRange c)))
         ''rangeMin'' (VFloat (cfg_rangeMin c)))
         ''rangeMax'' (VFloat (cfg_rangeMax c)))
         ''panRangeMin'' (VFloat (cfg_panRangeMin c)))
         ''panRangeMax'' (VFloat (cfg_panRangeMax c)))
         ''lnbFreq'' (VFloat (cfg_lnbFreq c)))
         ''sampRate'' (VInt (cfg_sampRate c)))
         ''device'' (VString (cfg_device c)))
         ''strategy'' (VString (cfg_strategy c)))
         ''partitioning'' (VString (cfg_partitioning c)))
         ''palette'' (VString (cfg_palette c))"

definition serialize :: "PanoramicDialogConfig \<Rightarrow> suscan_object" where
  "serialize c =
     OObject (fold (\<lambda>p obj. Object_set obj (fst p) (VFloat (snd p))) (cfg_gains c)
                (serialize_fields c))"

text \<open>
  \<^verbatim>\<open>deserialize\<close>: the eleven \<^verbatim>\<open>LOAD(field)\<close> lines, each with the field's present
  value as the default, then the loop over the field indices that takes every field whose
  name starts with \<^verbatim>\<open>"gain."\<close>.
\<close>

primrec load_gains ::
  "suscan_object \<Rightarrow> nat list \<Rightarrow> (string \<times> real) list \<Rightarrow> exception + (string \<times> real) list" where
  "load_gains conf [] g = Inr g"
| "load_gains conf (i # rest) g =
     bind_exc (Object_getFieldName conf i) (\<lambda>name.
       if take 5 name = ''gain.''
       then bind_exc (Object_get_float conf name 0) (\<lambda>v.
              load_gains conf rest (AList.update name v g))
       else load_gains conf rest g)"

definition deserialize :: "PanoramicDialogConfig \<Rightarrow> suscan_object \<Rightarrow> exception + PanoramicDialogConfig" where
  "deserialize c conf =
     bind_exc (Object_get_bool conf ''fullRange'' (cfg_fullRange c)) (\<lambda>v1.
     bind_exc (Object_get_float conf ''rangeMin'' (cfg_rangeMin c)) (\<lambda>v2.
     bind_exc (Object_get_float conf ''rangeMax'' (cfg_rangeMax c)) (\<lambda>v3.
     bind_exc (Object_get_float conf ''panRangeMin'' (cfg_panRangeMin c)) (\<lambda>v4.
     bind_exc (Object_get_float conf ''panRangeMax'' (cfg_panRangeMax c)) (\<lambda>v5.
     bind_exc (Object_get_float conf ''lnbFreq'' (cfg_lnbFreq c)) (\<lambda>v6.
     bind_exc (Object_get_string conf ''device'' (cfg_device c)) (\<lambda>v7.
     bind_exc (Object_get_int conf ''sampRate'' (cfg_sampRate c)) (\<lambda>v8.
     bind_exc (Object_get_string conf ''strategy'' (cfg_strategy c)) (\<lambda>v9.
     bind_exc (Object_get_string conf ''partitioning'' (cfg_partitioning c)) (\<lambda>v10.
     bind_exc (Object_get_string conf ''palette'' (cfg_palette c)) (\<lambda>v11.
     bind_exc (load_gains conf [0..<Object_getFieldCount conf] (cfg_gains c)) (\<lambda>g.
       Inr (c\<lparr>cfg_fullRange := v1, cfg_rangeMin := v2, cfg_rangeMax := v3,
               cfg_panRangeMin := v4, cfg_panRangeMax := v5, cfg_lnbFreq := v6,
               cfg_device := v7, cfg_sampRate := v8, cfg_strategy := v9,
               cfg_partitioning := v10, cfg_palette := v11, cfg_gains := g\<rparr>)))))))))))))"

text \<open>
  What \<^verbatim>\<open>setGain\<close> and \<^verbatim>\<open>deserialize\<close> maintain: every key of \<^verbatim>\<open>gains\<close> starts
  with \<^verbatim>\<open>"gain."\<close>, and (as in any \<^verbatim>\<open>std::map\<close>) no key occurs twice.
\<close>

definition gains_ok :: "(string \<times> real) list \<Rightarrow> bool" where
  "gains_ok g = (distinct (map fst g) \<and> list_all (\<lambda>p. take 5 (fst p) = ''gain.'') g)"

subsection \<open>The waterfall widget\<close>

text \<open>
  The waterfall (\<^verbatim>\<open>ui->waterfall\<close> of the dialog, \<^verbatim>\<open>ui->mainSpectrum\<close> of the main
  panel) is an external widget. A record holds the values its setters receive and its
  getters return; the getters' results are taken as the \<^verbatim>\<open>qint64\<close> values the callers
  convert them to. What \<^verbatim>\<open>resetHorizontalZoom()\<close> does to the widget is not in the
  sources: the functions that call it take it as the parameter \<open>rhz\<close>.
\<close>

record Waterfall =
  wf_centerFreq :: int
  wf_fftCenterFreq :: int
  wf_spanFreq :: int
  wf_sampleRate :: int
  wf_locked :: bool
  wf_demodRanges :: "int \<times> int \<times> int \<times> int \<times> bool"
  wf_hiLowCut :: "int \<times> int"
  wf_filterOffset :: int
  wf_filterBw :: int
  wf_freqUnits :: int
  wf_fftData :: "real list"

text \<open>\<^verbatim>\<open>setCenterFreq(quint64)\<close>; the widget reports the centre as a \<^verbatim>\<open>qint64\<close>.\<close>

definition Waterfall_setCenterFreq :: "Waterfall \<Rightarrow> 64 word \<Rightarrow> Waterfall" where
  "Waterfall_setCenterFreq w f = w\<lparr>wf_centerFreq := sint f\<rparr>"

subsection \<open>The panoramic dialog: state\<close>

text \<open>
  Modelled from the spec: the class \<^verbatim>\<open>DeviceGain\<close>, which is not part of the two
  files embedded here, one control of the "gain-control panel rebuilt from an externally
  supplied device gain list": it carries the name of the gain it was built for and the
  value last given to \<^verbatim>\<open>setGain\<close> (\<open>None\<close> until then).
\<close>

record DeviceGain =
  dg_name :: string
  dg_gain :: "real option"



text \<open>
  The items of \<^verbatim>\<open>gainGridLayout\<close>: a gain control (the index of the control in
  \<^verbatim>\<open>gainControls\<close>, which is also its row), the placeholder label, the spacer below the
  controls (with its row).
\<close>

datatype layout_item = GainItem nat | LabelItem string | SpacerItem nat

text \<open>What the dialog shows or emits, in order.\<close>

datatype event =
    Emit_start
  | Emit_stop
  | Emit_detailChanged "64 word" "64 word" bool
  | Called_setWfRange int int
  | MessageBox_critical string string
  | MessageBox_warning string string
  | FileDialog_exec

record Ui_PanoramicDialog =
  rangeStartSpin :: real
  rangeEndSpin :: real
  relBwSlider :: int
  walkStrategyCombo :: string
  partitioningCombo :: string
  deviceCombo :: string
  scanButton_checked :: bool
  scanButton_text :: string
  exportButton_enabled :: bool
  centerLabel :: string
  bwLabel :: string
  framesLabel :: string
  waterfall :: Waterfall
  gainGridLayout :: "layout_item list"

record PanoramicDialog =
  ui :: Ui_PanoramicDialog
  dialogConfig :: PanoramicDialogConfig
  deviceMap :: "string \<Rightarrow> Device option"
  bannedDevice :: string
  adjustingRange :: bool
  fixedFreqMode :: bool
  minBwForZoom :: "64 word"
  currBw :: int
  freqStart :: "64 word"
  freqEnd :: "64 word"
  demodFreq :: int
  frames :: nat
  saved :: SavedSpectrum
  gainControls :: "DeviceGain list"
  noGainLabel :: "string option"
  emitted :: "event list"

definition emit :: "PanoramicDialog \<Rightarrow> event \<Rightarrow> PanoramicDialog" where
  "emit s e = s\<lparr>emitted := emitted s @ [e]\<rparr>"

definition set_waterfall :: "PanoramicDialog \<Rightarrow> Waterfall \<Rightarrow> PanoramicDialog" where
  "set_waterfall s w = s\<lparr>ui := (ui s)\<lparr>waterfall := w\<rparr>\<rparr>"

subsection \<open>The panoramic dialog: getters\<close>

definition getMinFreq :: "PanoramicDialog \<Rightarrow> real" where
  "getMinFreq s = rangeStartSpin (ui s)"

definition getMaxFreq :: "PanoramicDialog \<Rightarrow> real" where
  "getMaxFreq s = rangeEndSpin (ui s)"

text \<open>\<^verbatim>\<open>relBwSlider->value() / 100.f\<close>\<close>

definition getRelBw :: "PanoramicDialog \<Rightarrow> real" where
  "getRelBw s = real_of_int (relBwSlider (ui s)) / 100"

definition getStrategy :: "PanoramicDialog \<Rightarrow> string" where
  "getStrategy s = walkStrategyCombo (ui s)"

definition getPartitioning :: "PanoramicDialog \<Rightarrow> string" where
  "getPartitioning s =
     (if getStrategy s = ''Progressive'' then ''Discrete'' else partitioningCombo (ui s))"

definition setBannedDevice :: "PanoramicDialog \<Rightarrow> string \<Rightarrow> PanoramicDialog" where
  "setBannedDevice s desc = s\<lparr>bannedDevice := desc\<rparr>"

text \<open>
  \<^verbatim>\<open>getSelectedDevice(dev)\<close>: \<open>dev\<close> is an output parameter, left as it was when the
  combo's text is not a key of \<^verbatim>\<open>deviceMap\<close>.
\<close>

definition getSelectedDevice :: "PanoramicDialog \<Rightarrow> Device \<Rightarrow> bool \<times> Device" where
  "getSelectedDevice s dev =
     (case deviceMap s (deviceCombo (ui s)) of
        Some d \<Rightarrow> (True, d)
      | None \<Rightarrow> (False, dev))"

subsection \<open>The panoramic dialog: starting and stopping a scan\<close>

text \<open>
  \<^verbatim>\<open>onToggleScan\<close>; \<open>dev0\<close> is the default-constructed \<^verbatim>\<open>Suscan::Source::Device\<close>
  that the slot declares before it asks for the selected one.
\<close>

definition onToggleScan :: "Device \<Rightarrow> PanoramicDialog \<Rightarrow> PanoramicDialog" where
  "onToggleScan dev0 s =
     (let s1 =
        (if scanButton_checked (ui s) then
           (let dev = snd (getSelectedDevice s dev0) in
            if length (bannedDevice s) > 0 \<and> dev_desc dev = bannedDevice s then
              (let s2 = emit s (MessageBox_critical ''Panoramic spectrum error error''
                 ''Scan cannot start because the selected device is in use by the main window.'')
               in s2\<lparr>ui := (ui s2)\<lparr>scanButton_checked := False\<rparr>\<rparr>)
            else emit s Emit_start)
         else emit s Emit_stop)
      in s1\<lparr>ui := (ui s1)\<lparr>scanButton_text :=
            (if scanButton_checked (ui s1) then ''Stop'' else ''Start scan'')\<rparr>\<rparr>)"

subsection \<open>The panoramic dialog: the visible range\<close>

text \<open>
  \<^verbatim>\<open>setWfRange(freqStart, freqEnd)\<close>. The call is recorded in the trace with its
  arguments. In fixed frequency mode only the sample rate follows \<^verbatim>\<open>minBwForZoom\<close>;
  otherwise the waterfall is centred on the middle of the range and, when the width
  changed, unlocked, resized and its zoom reset. The centre
  \<^verbatim>\<open>static_cast<quint64>(.5 * (freqEnd + freqStart))\<close> is undefined in C++ for a negative
  sum; it is taken modulo \<open>2 ^ 64\<close> here.
\<close>

definition setWfRange ::
  "(Waterfall \<Rightarrow> Waterfall) \<Rightarrow> PanoramicDialog \<Rightarrow> int \<Rightarrow> int \<Rightarrow> PanoramicDialog" where
  "setWfRange rhz s0 fStart fEnd =
     (let s = emit s0 (Called_setWfRange fStart fEnd) in
      if fixedFreqMode s then
        (let bw = sint (minBwForZoom s) in
         if bw \<noteq> currBw s then
           (set_waterfall s ((waterfall (ui s))\<lparr>wf_sampleRate := bw\<rparr>))\<lparr>currBw := bw\<rparr>
         else s)
      else
        (let fc = cast_quint64 (cast_qint64 (0.5 * real_of_int (fEnd + fStart)));
             bw = fEnd - fStart;
             s1 = set_waterfall s (Waterfall_setCenterFreq (waterfall (ui s)) fc)
         in
         if bw \<noteq> currBw s1 then
           (set_waterfall s1
              (rhz ((waterfall (ui s1))
                 \<lparr>wf_locked := False,
                  wf_sampleRate := bw,
                  wf_demodRanges := (- cast_int (cdiv bw 2), 0, 0, cast_int (cdiv bw 2), True),
                  wf_hiLowCut := (- cast_int (cdiv bw 20), cast_int (cdiv bw 20))\<rparr>)))
           \<lparr>currBw := bw\<rparr>
         else s1))"

text \<open>
  \<^verbatim>\<open>redrawMeasures\<close>: \<^verbatim>\<open>freqStart + freqEnd\<close> is a sum of two \<^verbatim>\<open>quint64\<close> and wraps.
\<close>

definition redrawMeasures :: "PanoramicDialog \<Rightarrow> PanoramicDialog" where
  "redrawMeasures s =
     (let f = cast_qint64 (real_of_int (wf_filterOffset (waterfall (ui s)))
                + 0.5 * real_of_int (uint (freqStart s + freqEnd s)))
      in s\<lparr>demodFreq := f,
            ui := (ui s)\<lparr>centerLabel := show_int f @ '' Hz'',
                          bwLabel := show_int (wf_filterBw (waterfall (ui s))) @ '' Hz'',
                          framesLabel := show_nat (frames s)\<rparr>\<rparr>)"

text \<open>
  \<^verbatim>\<open>feed(freqStart, freqEnd, data, size)\<close>: \<open>buf\<close> is the memory at \<^verbatim>\<open>data\<close>, \<open>n\<close>
  is \<^verbatim>\<open>size\<close>.
\<close>

definition feed ::
  "(Waterfall \<Rightarrow> Waterfall) \<Rightarrow> PanoramicDialog \<Rightarrow> 64 word \<Rightarrow> 64 word \<Rightarrow> real list \<Rightarrow> nat
     \<Rightarrow> PanoramicDialog" where
  "feed rhz s fStart fEnd buf n =
     (let s1 =
        (if freqStart s \<noteq> fStart \<or> freqEnd s \<noteq> fEnd then
           (setWfRange rhz (s\<lparr>freqStart := fStart, freqEnd := fEnd, adjustingRange := True\<rparr>)
              (sint fStart) (sint fEnd))\<lparr>adjustingRange := False\<rparr>
         else s);
        s2 = s1\<lparr>saved := SavedSpectrum_set (saved s1) (sint fStart) (sint fEnd) buf n\<rparr>;
        s3 = s2\<lparr>ui := (ui s2)\<lparr>exportButton_enabled := True,
                waterfall := (waterfall (ui s2))\<lparr>wf_fftData := take (nat (cast_int (int n))) buf\<rparr>\<rparr>\<rparr>;
        s4 = s3\<lparr>frames := frames s3 + 1\<rparr>
      in redrawMeasures s4)"

text \<open>
  \<^verbatim>\<open>onNewZoomLevel\<close>. The span is read before anything changes; in fixed frequency mode
  the range is computed again around the waterfall's centre, read after the possible
  reset of the zoom.
\<close>

definition onNewZoomLevel ::
  "(Waterfall \<Rightarrow> Waterfall) \<Rightarrow> PanoramicDialog \<Rightarrow> PanoramicDialog" where
  "onNewZoomLevel rhz s =
     (let fc = \<bar>wf_centerFreq (waterfall (ui s)) + wf_fftCenterFreq (waterfall (ui s))\<bar>;
          span = wf_spanFreq (waterfall (ui s))
      in
      if \<not> adjustingRange s then
        (let s1 = s\<lparr>adjustingRange := True\<rparr>;
             min0 = fc - cdiv span 2;
             max0 = fc + cdiv span 2;
             adjLeft = (real_of_int min0 < getMinFreq s1);
             min1 = (if adjLeft then cast_qint64 (getMinFreq s1) else min0);
             adjRight = (real_of_int max0 > getMaxFreq s1);
             max1 = (if adjRight then cast_qint64 (getMaxFreq s1) else max0);
             s2 = (if adjLeft \<and> adjRight then set_waterfall s1 (rhz (waterfall (ui s1))) else s1);
             s3 = s2\<lparr>fixedFreqMode :=
                     (real_of_int (max1 - min1)
                        \<le> real_of_int (uint (minBwForZoom s2)) * getRelBw s2)\<rparr>;
             fc' = (if fixedFreqMode s3 then wf_centerFreq (waterfall (ui s3)) else fc);
             min2 = (if fixedFreqMode s3 then fc' - cdiv span 2 else min1);
             max2 = (if fixedFreqMode s3 then fc' + cdiv span 2 else max1);
             s4 = (setWfRange rhz s3 min2 max2)\<lparr>adjustingRange := False\<rparr>
         in emit s4 (Emit_detailChanged (cast_quint64 min2) (cast_quint64 max2) (fixedFreqMode s4)))
      else s)"

subsection \<open>The panoramic dialog: the gain panel\<close>

text \<open>\<^verbatim>\<open>QLayout::takeAt(0)\<close> followed by \<^verbatim>\<open>delete\<close>: the first item goes, if there is one.\<close>

definition takeAt0 :: "layout_item list \<Rightarrow> layout_item list" where
  "takeAt0 items = drop 1 items"

primrec takeAt0_times :: "nat \<Rightarrow> layout_item list \<Rightarrow> layout_item list" where
  "takeAt0_times 0 items = items"
| "takeAt0_times (Suc k) items = takeAt0_times k (takeAt0 items)"

definition clearGains :: "PanoramicDialog \<Rightarrow> PanoramicDialog" where
  "clearGains s =
     (let len = length (gainControls s) in
      if len = 0 then
        s\<lparr>ui := (ui s)\<lparr>gainGridLayout := takeAt0 (gainGridLayout (ui s))\<rparr>,
           noGainLabel := None\<rparr>
      else
        s\<lparr>ui := (ui s)\<lparr>gainGridLayout := takeAt0 (takeAt0_times len (gainGridLayout (ui s)))\<rparr>,
           gainControls := []\<rparr>)"



subsection \<open>The panoramic dialog: exporting the saved spectrum\<close>

text \<open>
  The file system is a map from paths to contents; \<open>can_open\<close> says for which paths
  the \<^verbatim>\<open>std::ofstream\<close> opens. \<open>show_float\<close> is what \<^verbatim>\<open>operator<<\<close> prints for a
  \<^verbatim>\<open>float\<close> at the precision set. The stream is the text written so far; opening a
  file for output empties it.
\<close>

definition exportToFile ::
  "(string \<Rightarrow> bool) \<Rightarrow> (real \<Rightarrow> string) \<Rightarrow> SavedSpectrum \<Rightarrow> string \<Rightarrow> (string \<Rightarrow> string option)
     \<Rightarrow> bool \<times> (string \<Rightarrow> string option)" where
  "exportToFile can_open show_float sp path fs =
     (if \<not> can_open path then (False, fs)
      else
        (let of0 = [];
             of1 = of0 @ ''%'' @ newline;
             of2 = of1 @ ''% Panoramic Spectrum file generated by SigDigger'' @ newline;
             of3 = of2 @ ''%'' @ newline @ newline;
             of4 = of3 @ ''freqMin = '' @ show_int (sp_start sp) @ '';'' @ newline;
             of5 = of4 @ ''freqMax = '' @ show_int (sp_end sp) @ '';'' @ newline;
             of6 = of5 @ ''PSD = [ '';
             of7 = fold (\<lambda>p out. out @ show_float p @ '' '') (sp_data sp) of6;
             of8 = of7 @ ''];'' @ newline
         in (True, fs(path \<mapsto> of8))))"

text \<open>
  \<^verbatim>\<open>onExport\<close>: each turn of the loop shows a file dialog. The user's answers are the
  list \<open>answers\<close>: \<open>Rejected\<close> when the dialog is cancelled, \<open>Accepted path\<close>
  with the first selected file otherwise. The slot has returned when the result is
  \<open>Some\<close>; \<open>None\<close> is the slot still waiting in a dialog after all the answers
  given.
\<close>

datatype dialog_answer = Rejected | Accepted string

fun onExport ::
  "(string \<Rightarrow> bool) \<Rightarrow> (real \<Rightarrow> string) \<Rightarrow> dialog_answer list
     \<Rightarrow> PanoramicDialog \<times> (string \<Rightarrow> string option)
     \<Rightarrow> (PanoramicDialog \<times> (string \<Rightarrow> string option)) option" where
  "onExport can_open show_float [] (s, fs) = None"
| "onExport can_open show_float (Rejected # answers) (s, fs) =
     Some (emit s FileDialog_exec, fs)"
| "onExport can_open show_float (Accepted path # answers) (s, fs) =
     (let s1 = emit s FileDialog_exec;
          r = exportToFile can_open show_float (saved s1) path fs
      in
      if \<not> fst r then
        onExport can_open show_float answers
          (emit s1 (MessageBox_warning ''Cannot open file''
             (''Cannote save file in the specified location. Please choose '' @
              ''a different location and try again.'')),
           snd r)
      else Some (s1, snd r))"

subsection \<open>The main spectrum panel: state\<close>

text \<open>
  The frequency displays \<^verbatim>\<open>fcLcd\<close>, \<^verbatim>\<open>loLcd\<close> and \<^verbatim>\<open>lnbLcd\<close> are external
  widgets holding a value and two limits. What such a widget does with a value outside
  its limits is not in the sources: \<open>fit lo hi v\<close> is the value it shows when it is
  given \<open>v\<close> under the limits \<open>lo\<close> and \<open>hi\<close>. \<open>plain_lcd\<close> shows what it is
  given, \<open>clamping_lcd\<close> keeps the value within the limits.
\<close>

record LCD =
  lcd_value :: int
  lcd_min :: int
  lcd_max :: int






record FrequencyBand =
  fb_min :: int
  fb_max :: int
  fb_primary :: string
  fb_secondary :: string
  fb_footnotes :: string
  fb_color :: string

text \<open>
  Modelled from the spec: the class \<^verbatim>\<open>FrequencyAllocationTable\<close>, which is not part of
  the two files embedded here, a "named ordered collection of FrequencyBand".
\<close>

record FrequencyAllocationTable =
  fat_name :: string
  fat_bands :: "FrequencyBand list"

text \<open>Modelled from the spec: the constructor of a \<^verbatim>\<open>FrequencyAllocationTable\<close>, without bands.\<close>

definition FrequencyAllocationTable_new :: "string \<Rightarrow> FrequencyAllocationTable" where
  "FrequencyAllocationTable_new name = \<lparr>fat_name = name, fat_bands = []\<rparr>"

text \<open>
  Modelled from the spec: \<^verbatim>\<open>FrequencyAllocationTable::pushBand\<close> adds a band to the
  ordered collection, at its end.
\<close>

definition pushBand :: "FrequencyAllocationTable \<Rightarrow> FrequencyBand \<Rightarrow> FrequencyAllocationTable" where
  "pushBand t band = t\<lparr>fat_bands := fat_bands t @ [band]\<rparr>"

datatype ms_event = Emit_loChanged int | Emit_newBandPlan string

record Ui_MainSpectrum =
  fcLcd :: LCD
  loLcd :: LCD
  lnbLcd :: LCD
  mainSpectrum :: Waterfall

text \<open>
  \<^verbatim>\<open>FATs\<close> is a vector of pointers: \<open>None\<close> is the null pointer that
  \<^verbatim>\<open>resize\<close> fills new places with.
\<close>

record MainSpectrum =
  ms_ui :: Ui_MainSpectrum
  minFreq :: int
  maxFreq :: int
  cachedRate :: "32 word"
  FATs :: "FrequencyAllocationTable option list"
  ms_emitted :: "ms_event list"

subsection \<open>The main spectrum panel: frequencies\<close>









subsection \<open>The main spectrum panel: band plans\<close>

text \<open>
  Modelled from the spec: \<^verbatim>\<open>Suscan::Object::getField(name)\<close>, the field of that name of
  an OBJECT; \<^verbatim>\<open>Suscan::Exception\<close> when there is none.
\<close>

definition Object_getField :: "suscan_object \<Rightarrow> string \<Rightarrow> exception + suscan_object" where
  "Object_getField obj name =
     bind_exc (Object_lookup obj name)
       (\<lambda>r. case r of Some v \<Rightarrow> Inr v | None \<Rightarrow> Inl SuscanException)"

text \<open>
  Modelled from the spec: \<^verbatim>\<open>Suscan::Object::value()\<close>, the text of a field holding text;
  \<^verbatim>\<open>Suscan::Exception\<close> for anything else.
\<close>

definition Object_value :: "suscan_object \<Rightarrow> exception + string" where
  "Object_value obj =
     (case obj of OField (VString v) \<Rightarrow> Inr v | _ \<Rightarrow> Inl SuscanException)"

text \<open>
  \<^verbatim>\<open>deserializeFrequencyBand\<close>; the colour is kept as the name given to
  \<^verbatim>\<open>setNamedColor\<close>.
\<close>

definition deserializeFrequencyBand :: "suscan_object \<Rightarrow> exception + FrequencyBand" where
  "deserializeFrequencyBand obj =
     bind_exc (Object_get_float obj ''min'' 0) (\<lambda>mn.
     bind_exc (Object_get_float obj ''max'' 0) (\<lambda>mx.
     bind_exc (Object_get_string obj ''primary'' []) (\<lambda>pri.
     bind_exc (Object_get_string obj ''secondary'' []) (\<lambda>sec.
     bind_exc (Object_get_string obj ''footnotes'' []) (\<lambda>foot.
     bind_exc (Object_get_string obj ''color'' ''#1f1f1f'') (\<lambda>col.
       Inr \<lparr>fb_min = cast_qint64 mn, fb_max = cast_qint64 mx, fb_primary = pri,
            fb_secondary = sec, fb_footnotes = foot, fb_color = col\<rparr>))))))"

text \<open>\<^verbatim>\<open>std::vector::resize\<close> on the vector of pointers.\<close>

definition resize :: "nat \<Rightarrow> 'a option list \<Rightarrow> 'a option list" where
  "resize n xs = take n xs @ replicate (n - length xs) None"

text \<open>
  The inner loop of \<^verbatim>\<open>deserializeFATs\<close>: an exception raised while a band is
  deserialized is caught and the band is left out.
\<close>

primrec pushBands :: "suscan_object list \<Rightarrow> FrequencyAllocationTable \<Rightarrow> FrequencyAllocationTable" where
  "pushBands [] t = t"
| "pushBands (b # bands) t =
     (case deserializeFrequencyBand b of
        Inr band \<Rightarrow> pushBands bands (pushBand t band)
      | Inl e \<Rightarrow> pushBands bands t)"

text \<open>
  The outer loop, from the table \<open>ndx\<close> on. An exception raised outside the
  \<^verbatim>\<open>try\<close> block (by \<^verbatim>\<open>getField\<close>, \<^verbatim>\<open>value\<close> or \<^verbatim>\<open>SU_ATTEMPT\<close>) leaves the
  function: the result is the panel as it is then, with the exception.
\<close>

fun deserializeFATs_from ::
  "suscan_object list \<Rightarrow> nat \<Rightarrow> MainSpectrum \<Rightarrow> MainSpectrum \<times> exception option" where
  "deserializeFATs_from [] ndx s = (s, None)"
| "deserializeFATs_from (p # rest) ndx s =
     (let s1 = s\<lparr>FATs := resize (ndx + 1) (FATs s)\<rparr> in
      case bind_exc (Object_getField p ''name'') Object_value of
        Inl e \<Rightarrow> (s1, Some e)
      | Inr name \<Rightarrow>
          (let s2 = s1\<lparr>FATs := (FATs s1)[ndx := Some (FrequencyAllocationTable_new name)]\<rparr> in
           case Object_getField p ''bands'' of
             Inl e \<Rightarrow> (s2, Some e)
           | Inr (OSet bands) \<Rightarrow>
               (let s3 = s2\<lparr>FATs := (FATs s2)[ndx :=
                             Some (pushBands bands (FrequencyAllocationTable_new name))]\<rparr>;
                    s4 = s3\<lparr>ms_emitted := ms_emitted s3 @ [Emit_newBandPlan name]\<rparr>
                in deserializeFATs_from rest (ndx + 1) s4)
           | Inr _ \<Rightarrow> (s2, Some SuscanException)))"

definition deserializeFATs :: "suscan_object list \<Rightarrow> MainSpectrum \<Rightarrow> MainSpectrum \<times> exception option" where
  "deserializeFATs fats s = deserializeFATs_from fats 0 s"

subsection \<open>Configurations the program can hold\<close>

text \<open>
  A configuration starts without gains; the dialog assigns its plain fields, and the
  entries of \<^verbatim>\<open>gains\<close> are written by \<^verbatim>\<open>setGain\<close> and \<^verbatim>\<open>deserialize\<close> only.
\<close>

inductive config_reachable :: "PanoramicDialogConfig \<Rightarrow> bool" where
  fresh: "cfg_gains c = [] \<Longrightarrow> config_reachable c"
| assign: "config_reachable c \<Longrightarrow> cfg_gains c' = cfg_gains c \<Longrightarrow> config_reachable c'"
| by_setGain: "config_reachable c \<Longrightarrow> config_reachable (setGain c dev name v)"
| by_deserialize: "config_reachable c \<Longrightarrow> deserialize c conf = Inr c' \<Longrightarrow> config_reachable c'"

text \<open>The field that \<^verbatim>\<open>serialize\<close> writes for an entry of \<^verbatim>\<open>gains\<close>.\<close>

definition gain_field :: "string \<times> real \<Rightarrow> string \<times> suscan_object" where
  "gain_field p = (fst p, OField (VFloat (snd p)))"

text \<open>One turn of the loop of \<^verbatim>\<open>deserialize\<close>, for the field \<open>e\<close> of the fields \<open>fs\<close>.\<close>

definition take_gain ::
  "(string \<times> suscan_object) list \<Rightarrow> string \<times> suscan_object \<Rightarrow> (string \<times> real) list
     \<Rightarrow> (string \<times> real) list" where
  "take_gain fs e g =
     (if take 5 (fst e) = ''gain.''
      then AList.update (fst e)
             (case map_of fs (fst e) of Some (OField (VFloat x)) \<Rightarrow> x | _ \<Rightarrow> 0) g
      else g)"

subsection \<open>Concrete objects\<close>

definition example_config :: PanoramicDialogConfig where
  "example_config =
     \<lparr>cfg_fullRange = False, cfg_rangeMin = 88000000, cfg_rangeMax = 108000000,
      cfg_panRangeMin = - 90, cfg_panRangeMax = 0, cfg_lnbFreq = 0,
      cfg_device = ''RTL-SDR'', cfg_sampRate = 2000000, cfg_strategy = ''Exhaustive'',
      cfg_partitioning = ''Continuous'', cfg_palette = ''Suscan'', cfg_gains = []\<rparr>"

definition example_waterfall :: Waterfall where
  "example_waterfall =
     \<lparr>wf_centerFreq = 0, wf_fftCenterFreq = 0, wf_spanFreq = 100, wf_sampleRate = 1000,
      wf_locked = False, wf_demodRanges = (- 500, 0, 0, 500, True), wf_hiLowCut = (- 50, 50),
      wf_filterOffset = 0, wf_filterBw = 100, wf_freqUnits = 1, wf_fftData = []\<rparr>"

definition example_device :: Device where
  "example_device =
     \<lparr>dev_desc = ''RTL-SDR'', dev_driver = ''rtlsdr'', dev_minFreq = 0, dev_maxFreq = 1000,
      dev_gains = [\<lparr>gd_name = ''LNA'', gd_default = 10\<rparr>, \<lparr>gd_name = ''VGA'', gd_default = 20\<rparr>]\<rparr>"

definition default_device :: Device where
  "default_device =
     \<lparr>dev_desc = [], dev_driver = [], dev_minFreq = 0, dev_maxFreq = 0, dev_gains = []\<rparr>"

definition example_ui :: Ui_PanoramicDialog where
  "example_ui =
     \<lparr>rangeStartSpin = 0, rangeEndSpin = 1000, relBwSlider = 100,
      walkStrategyCombo = ''Exhaustive'', partitioningCombo = ''Continuous'',
      deviceCombo = ''RTL-SDR'', scanButton_checked = True, scanButton_text = ''Start scan'',
      exportButton_enabled = False, centerLabel = [], bwLabel = [], framesLabel = ''0'',
      waterfall = example_waterfall, gainGridLayout = []\<rparr>"

definition example_dialog :: PanoramicDialog where
  "example_dialog =
     \<lparr>ui = example_ui, dialogConfig = example_config,
      deviceMap = [''RTL-SDR'' \<mapsto> example_device], bannedDevice = [],
      adjustingRange = False, fixedFreqMode = False, minBwForZoom = 1000, currBw = 0,
      freqStart = 0, freqEnd = 0, demodFreq = 0, frames = 0,
      saved = \<lparr>sp_start = 0, sp_end = 0, sp_data = []\<rparr>,
      gainControls = [], noGainLabel = None, emitted = []\<rparr>"

definition example_lcd :: LCD where
  "example_lcd = \<lparr>lcd_value = 0, lcd_min = - 1000, lcd_max = 1000\<rparr>"

definition example_panel :: MainSpectrum where
  "example_panel =
     \<lparr>ms_ui = \<lparr>fcLcd = example_lcd\<lparr>lcd_value := 100\<rparr>, loLcd = example_lcd\<lparr>lcd_value := 130\<rparr>,
               lnbLcd = example_lcd, mainSpectrum = example_waterfall\<rparr>,
      minFreq = 0, maxFreq = 1000, cachedRate = 200, FATs = [], ms_emitted = []\<rparr>"

subsection \<open>Auxiliary notions for the statements\<close>


text \<open>An answer to the file dialog after which \<^verbatim>\<open>onExport\<close> asks again.\<close>

definition export_fails :: "(string \<Rightarrow> bool) \<Rightarrow> dialog_answer \<Rightarrow> bool" where
  "export_fails can_open a = (case a of Rejected \<Rightarrow> False | Accepted path \<Rightarrow> \<not> can_open path)"

definition export_warning :: event where
  "export_warning =
     MessageBox_warning ''Cannot open file''
       ''Cannote save file in the specified location. Please choose a different location and try again.''"

text \<open>The text of an exported spectrum.\<close>

definition export_text :: "(real \<Rightarrow> string) \<Rightarrow> SavedSpectrum \<Rightarrow> string" where
  "export_text show_float sp =
     ''%'' @ newline @ ''% Panoramic Spectrum file generated by SigDigger'' @ newline
     @ ''%'' @ newline @ newline
     @ ''freqMin = '' @ show_int (sp_start sp) @ '';'' @ newline
     @ ''freqMax = '' @ show_int (sp_end sp) @ '';'' @ newline
     @ ''PSD = [ '' @ concat (map (\<lambda>p. show_float p @ '' '') (sp_data sp)) @ ''];'' @ newline"

text \<open>
  What \<^verbatim>\<open>deserializeFATs\<close> reads of the table object \<open>p\<close> outside the \<^verbatim>\<open>try\<close>
  block: its name and its set of bands.
\<close>

definition table_name :: "suscan_object \<Rightarrow> exception + string" where
  "table_name p = bind_exc (Object_getField p ''name'') Object_value"

definition table_bands :: "suscan_object \<Rightarrow> exception + suscan_object list" where
  "table_bands p =
     (case Object_getField p ''bands'' of
        Inl e \<Rightarrow> Inl e
      | Inr (OSet bands) \<Rightarrow> Inr bands
      | Inr _ \<Rightarrow> Inl SuscanException)"

text \<open>The band of an entry, when its deserialization does not raise.\<close>

definition band_of :: "suscan_object \<Rightarrow> FrequencyBand option" where
  "band_of b = (case deserializeFrequencyBand b of Inr band \<Rightarrow> Some band | Inl e \<Rightarrow> None)"

text \<open>The table with the name \<open>name\<close> and the bands of the entries \<open>bands\<close> that do not raise.\<close>

definition loaded_table :: "string \<Rightarrow> suscan_object list \<Rightarrow> FrequencyAllocationTable" where
  "loaded_table name bands = \<lparr>fat_name = name, fat_bands = List.map_filter band_of bands\<rparr>"

definition example_band :: "real \<Rightarrow> real \<Rightarrow> string \<Rightarrow> suscan_object" where
  "example_band lo hi name =
     OObject [(''min'', OField (VFloat lo)), (''max'', OField (VFloat hi)),
              (''primary'', OField (VString name))]"

definition example_table :: suscan_object where
  "example_table =
     OObject [(''name'', OField (VString ''ITU Region 1'')),
              (''bands'', OSet [example_band 87500000 108000000 ''BROADCASTING'',
                                OField (VString ''not a band''),
                                example_band 144000000 146000000 ''AMATEUR''])]"

text \<open>
  The limits of the range in \<^verbatim>\<open>onNewZoomLevel\<close> after the two comparisons with
  \<^verbatim>\<open>getMinFreq()\<close> and \<^verbatim>\<open>getMaxFreq()\<close>, and the centre that the waterfall reports
  after them.
\<close>

definition zoom_min :: "PanoramicDialog \<Rightarrow> int" where
  "zoom_min s =
     (let fc = \<bar>wf_centerFreq (waterfall (ui s)) + wf_fftCenterFreq (waterfall (ui s))\<bar>;
          min0 = fc - cdiv (wf_spanFreq (waterfall (ui s))) 2
      in if real_of_int min0 < getMinFreq s then cast_qint64 (getMinFreq s) else min0)"

definition zoom_max :: "PanoramicDialog \<Rightarrow> int" where
  "zoom_max s =
     (let fc = \<bar>wf_centerFreq (waterfall (ui s)) + wf_fftCenterFreq (waterfall (ui s))\<bar>;
          max0 = fc + cdiv (wf_spanFreq (waterfall (ui s))) 2
      in if real_of_int max0 > getMaxFreq s then cast_qint64 (getMaxFreq s) else max0)"

definition zoom_centre :: "(Waterfall \<Rightarrow> Waterfall) \<Rightarrow> PanoramicDialog \<Rightarrow> int" where
  "zoom_centre rhz s =
     (let fc = \<bar>wf_centerFreq (waterfall (ui s)) + wf_fftCenterFreq (waterfall (ui s))\<bar>;
          span = wf_spanFreq (waterfall (ui s))
      in if real_of_int (fc - cdiv span 2) < getMinFreq s \<and> real_of_int (fc + cdiv span 2) > getMaxFreq s
         then wf_centerFreq (rhz (waterfall (ui s)))
         else wf_centerFreq (waterfall (ui s)))"

text \<open>
  The example dialog zoomed out, centred on 100 with a span of 1000 and a small
  \<^verbatim>\<open>minBwForZoom\<close>: with the lower limit 0.5, and with the whole limits 0 and 500.
\<close>

definition example_dialog_wide :: PanoramicDialog where
  "example_dialog_wide =
     example_dialog\<lparr>ui := example_ui\<lparr>rangeStartSpin := 1 / 2,
         waterfall := example_waterfall\<lparr>wf_centerFreq := 100, wf_spanFreq := 1000\<rparr>\<rparr>,
       minBwForZoom := 10\<rparr>"

definition example_dialog_whole :: PanoramicDialog where
  "example_dialog_whole =
     example_dialog\<lparr>ui := example_ui\<lparr>rangeEndSpin := 500,
         waterfall := example_waterfall\<lparr>wf_centerFreq := 100, wf_spanFreq := 1000\<rparr>\<rparr>,
       minBwForZoom := 10\<rparr>"



section \<open>Properties\<close>

subsection \<open>Exceptions\<close>

lemma bind_exc_Inr [simp]: "bind_exc (Inr x) f = f x"
  by (simp add: bind_exc_def)

lemma bind_exc_Inl [simp]: "bind_exc (Inl e) f = Inl e"
  by (simp add: bind_exc_def)

lemma bind_exc_eq_Inr: "bind_exc m f = Inr y \<longleftrightarrow> (\<exists>x. m = Inr x \<and> f x = Inr y)"
  by (cases m) simp_all

subsection \<open>The gains of a configuration\<close>

lemma update_fresh: "k \<notin> fst ` set al \<Longrightarrow> AList.update k v al = al @ [(k, v)]"
  by (induction al) auto

lemma fullName_prefix: "take 5 (fullName dev name) = ''gain.''"
  by (simp add: fullName_def)

lemma gains_ok_Nil: "gains_ok []"
  by (simp add: gains_ok_def)

lemma gains_ok_update:
  assumes "gains_ok g" and "take 5 k = ''gain.''"
  shows "gains_ok (AList.update k v g)"
proof -
  have "distinct (map fst (AList.update k v g))"
    using assms(1) by (simp add: gains_ok_def distinct_update)
  moreover have "\<forall>p \<in> set (AList.update k v g). take 5 (fst p) = ''gain.''"
  proof
    fix p assume "p \<in> set (AList.update k v g)"
    then have "fst p \<in> {k} \<union> fst ` set g"
      using dom_update [of k v g] by (metis imageI)
    then show "take 5 (fst p) = ''gain.''"
      using assms by (auto simp: gains_ok_def list_all_iff)
  qed
  ultimately show ?thesis by (simp add: gains_ok_def list_all_iff)
qed

lemma gains_ok_load_gains:
  "gains_ok g \<Longrightarrow> load_gains conf ixs g = Inr g' \<Longrightarrow> gains_ok g'"
proof (induction ixs arbitrary: g)
  case Nil
  then show ?case by simp
next
  case (Cons i ixs)
  from Cons.prems(2) obtain name where
    n: "Object_getFieldName conf i = Inr name" and
    r: "(if take 5 name = ''gain.''
         then bind_exc (Object_get_float conf name 0) (\<lambda>v. load_gains conf ixs (AList.update name v g))
         else load_gains conf ixs g) = Inr g'"
    by (auto simp: bind_exc_eq_Inr)
  show ?case
  proof (cases "take 5 name = ''gain.''")
    case True
    with r obtain v where "load_gains conf ixs (AList.update name v g) = Inr g'"
      by (auto simp: bind_exc_eq_Inr)
    then show ?thesis
      using Cons.IH gains_ok_update [OF Cons.prems(1) True] by blast
  next
    case False
    with r Cons.IH Cons.prems(1) show ?thesis by simp
  qed
qed

lemma deserialize_gains:
  assumes "deserialize c conf = Inr c'"
  shows "load_gains conf [0..<Object_getFieldCount conf] (cfg_gains c) = Inr (cfg_gains c')"
proof -
  from assms obtain g where
    g: "load_gains conf [0..<Object_getFieldCount conf] (cfg_gains c) = Inr g" and
    c': "cfg_gains c' = g"
    unfolding deserialize_def bind_exc_eq_Inr by auto
  then show ?thesis by simp
qed

lemma config_reachable_gains_ok: "config_reachable c \<Longrightarrow> gains_ok (cfg_gains c)"
proof (induction rule: config_reachable.induct)
  case (fresh c)
  then show ?case by (simp add: gains_ok_Nil)
next
  case (assign c c')
  then show ?case by simp
next
  case (by_setGain c dev name v)
  then show ?case
    by (simp add: setGain_def gains_ok_update fullName_prefix)
next
  case (by_deserialize c conf c')
  then show ?case
    using gains_ok_load_gains deserialize_gains by blast
qed

subsection \<open>The serialized object\<close>

lemma serialize_fields_eq:
  "serialize_fields c =
     [(''fullRange'', OField (VBool (cfg_fullRange c))),
      (''rangeMin'', OField (VFloat (cfg_rangeMin c))),
      (''rangeMax'', OField (VFloat (cfg_rangeMax c))),
      (''panRangeMin'', OField (VFloat (cfg_panRangeMin c))),
      (''panRangeMax'', OField (VFloat (cfg_panRangeMax c))),
      (''lnbFreq'', OField (VFloat (cfg_lnbFreq c))),
      (''sampRate'', OField (VInt (cfg_sampRate c))),
      (''device'', OField (VString (cfg_device c))),
      (''strategy'', OField (VString (cfg_strategy c))),
      (''partitioning'', OField (VString (cfg_partitioning c))),
      (''palette'', OField (VString (cfg_palette c)))]"
  by (simp add: serialize_fields_def Object_set_def)

lemma fst_gain_field [simp]: "fst (gain_field p) = fst p"
  by (simp add: gain_field_def)

lemma fold_set_append:
  "distinct (map fst g) \<Longrightarrow> fst ` set g \<inter> fst ` set acc = {} \<Longrightarrow>
   fold (\<lambda>p obj. Object_set obj (fst p) (VFloat (snd p))) g acc = acc @ map gain_field g"
proof (induction g arbitrary: acc)
  case Nil
  then show ?case by simp
next
  case (Cons p g)
  have new: "fst p \<notin> fst ` set acc" using Cons.prems(2) by auto
  have upd: "Object_set acc (fst p) (VFloat (snd p)) = acc @ [gain_field p]"
    using new by (simp add: Object_set_def gain_field_def update_fresh)
  have "fst ` set g \<inter> fst ` set (acc @ [gain_field p]) = {}"
    using Cons.prems by (auto simp: gain_field_def)
  with Cons.IH [of "acc @ [gain_field p]"] Cons.prems(1) upd show ?case by simp
qed

lemma gains_ok_prefix: "gains_ok g \<Longrightarrow> p \<in> set g \<Longrightarrow> take 5 (fst p) = ''gain.''"
  by (simp add: gains_ok_def list_all_iff)

lemma gains_ok_distinct: "gains_ok g \<Longrightarrow> distinct (map fst g)"
  by (simp add: gains_ok_def)

lemma prefix_not_field:
  "take 5 k = ''gain.'' \<Longrightarrow> k \<notin> fst ` set (serialize_fields c)"
  by (auto simp: serialize_fields_eq)

lemma serialize_eq:
  assumes "gains_ok (cfg_gains c)"
  shows "serialize c = OObject (serialize_fields c @ map gain_field (cfg_gains c))"
proof -
  have "fst ` set (cfg_gains c) \<inter> fst ` set (serialize_fields c) = {}"
    using gains_ok_prefix [OF assms] prefix_not_field by blast
  then show ?thesis
    unfolding serialize_def using fold_set_append gains_ok_distinct [OF assms] by blast
qed

lemma load_gains_fold:
  "\<forall>i \<in> set ixs. i < length fs \<Longrightarrow>
   load_gains (OObject fs) ixs g = Inr (fold (take_gain fs) (map (\<lambda>i. fs ! i) ixs) g)"
  by (induction ixs arbitrary: g)
     (simp_all add: Object_getFieldName_def Object_get_float_def Object_lookup_def take_gain_def)

lemma load_gains_all:
  "load_gains (OObject fs) [0..<length fs] g = Inr (fold (take_gain fs) fs g)"
  using load_gains_fold [of "[0..<length fs]" fs g] by (simp add: map_nth)

lemma fold_take_gain_fields:
  "fold (take_gain fs) (serialize_fields c) g = g"
  by (simp add: serialize_fields_eq take_gain_def)

lemma fold_take_gain_gains:
  assumes "distinct (map fst fs)" "gain_field ` set g \<subseteq> set fs"
    "list_all (\<lambda>p. take 5 (fst p) = ''gain.'') g"
  shows "fold (take_gain fs) (map gain_field g) acc = fold (\<lambda>p. AList.update (fst p) (snd p)) g acc"
  using assms(2,3)
proof (induction g arbitrary: acc)
  case Nil
  then show ?case by simp
next
  case (Cons p g)
  have "(fst p, OField (VFloat (snd p))) \<in> set fs"
    using Cons.prems(1) by (auto simp: gain_field_def)
  then have "map_of fs (fst p) = Some (OField (VFloat (snd p)))"
    using assms(1) by simp
  then have "take_gain fs (gain_field p) acc = AList.update (fst p) (snd p) acc"
    using Cons.prems(2) by (simp add: take_gain_def)
  then show ?case using Cons by simp
qed

lemma fold_update_fresh:
  "distinct (map fst g) \<Longrightarrow> fst ` set g \<inter> fst ` set acc = {} \<Longrightarrow>
   fold (\<lambda>p. AList.update (fst p) (snd p)) g acc = acc @ g"
proof (induction g arbitrary: acc)
  case Nil
  then show ?case by simp
next
  case (Cons p g)
  have "fst p \<notin> fst ` set acc" using Cons.prems(2) by auto
  then have upd: "AList.update (fst p) (snd p) acc = acc @ [p]"
    by (simp add: update_fresh)
  have "fst ` set g \<inter> fst ` set (acc @ [p]) = {}"
    using Cons.prems by auto
  with Cons.IH [of "acc @ [p]"] Cons.prems(1) upd show ?case by simp
qed

lemma distinct_serialized:
  assumes "gains_ok (cfg_gains c)"
  shows "distinct (map fst (serialize_fields c @ map gain_field (cfg_gains c)))"
proof -
  have d1: "distinct (map fst (serialize_fields c))"
    by (simp add: serialize_fields_eq)
  have d2: "distinct (map fst (map gain_field (cfg_gains c)))"
    using gains_ok_distinct [OF assms] by (simp add: comp_def)
  have "fst ` set (cfg_gains c) \<inter> fst ` set (serialize_fields c) = {}"
    using gains_ok_prefix [OF assms] prefix_not_field by blast
  then have d3: "set (map fst (serialize_fields c)) \<inter> set (map fst (map gain_field (cfg_gains c))) = {}"
    by (auto simp: comp_def)
  show ?thesis using d1 d2 d3 by (simp only: map_append distinct_append)
qed

lemma load_gains_serialized:
  assumes ok: "gains_ok (cfg_gains c)"
  shows "load_gains (serialize c) [0..<Object_getFieldCount (serialize c)] [] = Inr (cfg_gains c)"
proof -
  let ?fs = "serialize_fields c @ map gain_field (cfg_gains c)"
  have s: "serialize c = OObject ?fs" by (rule serialize_eq [OF ok])
  have "fold (take_gain ?fs) ?fs [] = fold (take_gain ?fs) (map gain_field (cfg_gains c)) []"
    by (simp add: fold_take_gain_fields)
  also have "\<dots> = fold (\<lambda>p. AList.update (fst p) (snd p)) (cfg_gains c) []"
    using ok by (intro fold_take_gain_gains distinct_serialized) (auto simp: gains_ok_def)
  also have "\<dots> = cfg_gains c"
    using fold_update_fresh [of "cfg_gains c" "[]"] gains_ok_distinct [OF ok] by simp
  finally have f: "fold (take_gain ?fs) ?fs [] = cfg_gains c" .
  have "Object_getFieldCount (OObject ?fs) = length ?fs"
    by (simp add: Object_getFieldCount_def)
  then show ?thesis
    unfolding s using load_gains_all [of ?fs "[]"] f by (simp only:)
qed

lemma lookup_serialized:
  assumes ok: "gains_ok (cfg_gains c)"
  shows "Object_lookup (serialize c) name =
     Inr (case map_of (serialize_fields c) name of
            Some v \<Rightarrow> Some v
          | None \<Rightarrow> map_of (map gain_field (cfg_gains c)) name)"
  by (simp add: serialize_eq [OF ok] Object_lookup_def map_add_def split: option.split)

lemma map_of_gain_field:
  "map_of (map gain_field g) k = map_option (\<lambda>v. OField (VFloat v)) (map_of g k)"
  by (induction g) (auto simp: gain_field_def)

lemma lookup_serialized_gain:
  assumes ok: "gains_ok (cfg_gains c)" and k: "take 5 k = ''gain.''"
  shows "Object_lookup (serialize c) k = Inr (map_option (\<lambda>v. OField (VFloat v)) (map_of (cfg_gains c) k))"
proof -
  have "map_of (serialize_fields c) k = None"
    using prefix_not_field [OF k] by (simp add: map_of_eq_None_iff)
  then show ?thesis
    by (simp add: lookup_serialized [OF ok] map_of_gain_field)
qed

lemma deserialize_serialize:
  assumes ok: "gains_ok (cfg_gains c)" and fresh: "cfg_gains c0 = []"
  shows "deserialize c0 (serialize c) = Inr c"
proof -
  have g: "load_gains (serialize c) [0..<Object_getFieldCount (serialize c)] (cfg_gains c0) = Inr (cfg_gains c)"
    using load_gains_serialized [OF ok] fresh by simp
  show ?thesis
    unfolding deserialize_def
    by (simp add: g Object_get_bool_def Object_get_float_def Object_get_int_def
        Object_get_string_def lookup_serialized [OF ok] serialize_fields_eq)
qed

subsection \<open>C2: the key of a gain\<close>

text \<open>
  C2, as stated: the value of a gain is kept under the key \<^verbatim>\<open>"dev.g"\<close>. It is not:
  after \<^verbatim>\<open>setGain("rtlsdr", "LNA", 10)\<close> on a configuration without gains nothing is
  stored under \<^verbatim>\<open>"rtlsdr.LNA"\<close>.
\<close>

theorem gain_key_counterexample:
  "map_of (cfg_gains (setGain example_config ''rtlsdr'' ''LNA'' 10)) (''rtlsdr'' @ ''.'' @ ''LNA'')
     \<noteq> Some 10"
  by (simp add: setGain_def fullName_def example_config_def)

text \<open>
  C2, amended: the key is \<^verbatim>\<open>"gain." + dev + "." + g\<close>. \<^verbatim>\<open>setGain(dev, g, v)\<close> records
  \<open>v\<close> under that key, \<^verbatim>\<open>getGain(dev, g)\<close> retrieves it and returns 0 when the key is
  absent, \<^verbatim>\<open>hasGain(dev, g)\<close> tests that key, and the object made by \<^verbatim>\<open>serialize()\<close>
  holds every gain of the configuration under that same key.
\<close>

theorem gain_key:
  "map_of (cfg_gains (setGain c dev g v)) (''gain.'' @ dev @ ''.'' @ g) = Some v
   \<and> getGain (setGain c dev g v) dev g = v
   \<and> hasGain (setGain c dev g v) dev g
   \<and> hasGain c dev g = (map_of (cfg_gains c) (''gain.'' @ dev @ ''.'' @ g) \<noteq> None)
   \<and> getGain c dev g
       = (case map_of (cfg_gains c) (''gain.'' @ dev @ ''.'' @ g) of None \<Rightarrow> 0 | Some x \<Rightarrow> x)
   \<and> (config_reachable c \<and> hasGain c dev g \<longrightarrow>
        Object_lookup (serialize c) (''gain.'' @ dev @ ''.'' @ g)
          = Inr (Some (OField (VFloat (getGain c dev g)))))"
proof -
  have k: "fullName dev g = ''gain.'' @ dev @ ''.'' @ g"
    by (simp add: fullName_def)
  have 1: "map_of (cfg_gains (setGain c dev g v)) (''gain.'' @ dev @ ''.'' @ g) = Some v"
    by (simp add: setGain_def k update_conv')
  have 2: "getGain (setGain c dev g v) dev g = v"
    using 1 by (simp add: getGain_def k)
  have 3: "hasGain (setGain c dev g v) dev g"
    using 1 by (simp add: hasGain_def k)
  have 4: "hasGain c dev g = (map_of (cfg_gains c) (''gain.'' @ dev @ ''.'' @ g) \<noteq> None)"
    by (simp add: hasGain_def k)
  have 5: "getGain c dev g
       = (case map_of (cfg_gains c) (''gain.'' @ dev @ ''.'' @ g) of None \<Rightarrow> 0 | Some x \<Rightarrow> x)"
    by (simp add: getGain_def k)
  have 6: "Object_lookup (serialize c) (''gain.'' @ dev @ ''.'' @ g)
          = Inr (Some (OField (VFloat (getGain c dev g))))"
    if r: "config_reachable c" and h: "hasGain c dev g"
  proof -
    have ok: "gains_ok (cfg_gains c)"
      by (rule config_reachable_gains_ok [OF r])
    from h obtain x where x: "map_of (cfg_gains c) (fullName dev g) = Some x"
      by (auto simp: hasGain_def)
    have "Object_lookup (serialize c) (fullName dev g)
            = Inr (map_option (\<lambda>v. OField (VFloat v)) (map_of (cfg_gains c) (fullName dev g)))"
      by (rule lookup_serialized_gain [OF ok fullName_prefix])
    then show ?thesis
      using x by (simp add: getGain_def k)
  qed
  show ?thesis using 1 2 3 4 5 6 by blast
qed

theorem gain_key_witness:
  "config_reachable (setGain example_config ''rtlsdr'' ''LNA'' 10)
   \<and> hasGain (setGain example_config ''rtlsdr'' ''LNA'' 10) ''rtlsdr'' ''LNA''
   \<and> Object_lookup (serialize (setGain example_config ''rtlsdr'' ''LNA'' 10)) ''gain.rtlsdr.LNA''
       = Inr (Some (OField (VFloat 10)))"
proof -
  have r: "config_reachable (setGain example_config ''rtlsdr'' ''LNA'' 10)"
    by (rule config_reachable.by_setGain, rule config_reachable.fresh)
       (simp add: example_config_def)
  show ?thesis
    using r gain_key [of example_config "''rtlsdr''" "''LNA''" 10]
      gain_key [of "setGain example_config ''rtlsdr'' ''LNA'' 10" "''rtlsdr''" "''LNA''" 0]
    by simp
qed

subsection \<open>C3: serializing and deserializing a configuration\<close>

text \<open>
  C3: for every configuration \<open>c\<close> that the program can hold, deserializing the object
  made by \<^verbatim>\<open>c.serialize()\<close> into a configuration without gains gives \<open>c\<close> again:
  every persisted field and the whole map of gains are those of \<open>c\<close>. In particular
  every key that \<^verbatim>\<open>serialize\<close> writes for a gain starts with \<^verbatim>\<open>"gain."\<close>, which is what
  the loop of \<^verbatim>\<open>deserialize\<close> looks for.
\<close>

theorem serialize_roundtrip:
  assumes "config_reachable c" and "cfg_gains c0 = []"
  shows "deserialize c0 (serialize c) = Inr c
         \<and> (\<forall>p \<in> set (cfg_gains c).
              take 5 (fst p) = ''gain.''
              \<and> Object_lookup (serialize c) (fst p) = Inr (Some (OField (VFloat (snd p)))))"
proof -
  have ok: "gains_ok (cfg_gains c)"
    by (rule config_reachable_gains_ok [OF assms(1)])
  have "take 5 (fst p) = ''gain.''
        \<and> Object_lookup (serialize c) (fst p) = Inr (Some (OField (VFloat (snd p))))"
    if p: "p \<in> set (cfg_gains c)" for p
  proof -
    have pre: "take 5 (fst p) = ''gain.''"
      by (rule gains_ok_prefix [OF ok p])
    have "map_of (cfg_gains c) (fst p) = Some (snd p)"
      using gains_ok_distinct [OF ok] p by simp
    then show ?thesis
      using pre lookup_serialized_gain [OF ok pre] by simp
  qed
  then show ?thesis
    using deserialize_serialize [OF ok assms(2)] by blast
qed

theorem serialize_roundtrip_witness:
  "config_reachable (setGain (setGain example_config ''rtlsdr'' ''LNA'' 10) ''rtlsdr'' ''VGA'' 3)
   \<and> cfg_gains example_config = []
   \<and> cfg_gains (setGain (setGain example_config ''rtlsdr'' ''LNA'' 10) ''rtlsdr'' ''VGA'' 3)
       = [(''gain.rtlsdr.LNA'', 10), (''gain.rtlsdr.VGA'', 3)]
   \<and> deserialize example_config
        (serialize (setGain (setGain example_config ''rtlsdr'' ''LNA'' 10) ''rtlsdr'' ''VGA'' 3))
       = Inr (setGain (setGain example_config ''rtlsdr'' ''LNA'' 10) ''rtlsdr'' ''VGA'' 3)"
proof -
  have e: "cfg_gains example_config = []"
    by (simp add: example_config_def)
  have r: "config_reachable (setGain (setGain example_config ''rtlsdr'' ''LNA'' 10) ''rtlsdr'' ''VGA'' 3)"
    by (intro config_reachable.by_setGain config_reachable.fresh e)
  have g: "cfg_gains (setGain (setGain example_config ''rtlsdr'' ''LNA'' 10) ''rtlsdr'' ''VGA'' 3)
       = [(''gain.rtlsdr.LNA'', 10), (''gain.rtlsdr.VGA'', 3)]"
    by (simp add: setGain_def fullName_def example_config_def)
  show ?thesis
    using e r g serialize_roundtrip [OF r e] by blast
qed

subsection \<open>C10: the partitioning of a progressive walk\<close>

text \<open>
  C10: when the walk strategy is \<^verbatim>\<open>"Progressive"\<close>, \<^verbatim>\<open>getPartitioning\<close> returns
  \<^verbatim>\<open>"Discrete"\<close> whatever the text of the partitioning combo box; for every other
  strategy it returns the text of the partitioning combo box.
\<close>

theorem getPartitioning_progressive:
  "(getStrategy s = ''Progressive'' \<longrightarrow> getPartitioning s = ''Discrete'')
   \<and> (getStrategy s \<noteq> ''Progressive'' \<longrightarrow> getPartitioning s = partitioningCombo (ui s))"
  by (simp add: getPartitioning_def)

theorem getPartitioning_progressive_witness:
  "getStrategy (example_dialog\<lparr>ui := example_ui\<lparr>walkStrategyCombo := ''Progressive''\<rparr>\<rparr>) = ''Progressive''
   \<and> partitioningCombo (ui (example_dialog\<lparr>ui := example_ui\<lparr>walkStrategyCombo := ''Progressive''\<rparr>\<rparr>))
       = ''Continuous''
   \<and> getPartitioning (example_dialog\<lparr>ui := example_ui\<lparr>walkStrategyCombo := ''Progressive''\<rparr>\<rparr>)
       = ''Discrete''
   \<and> getStrategy example_dialog \<noteq> ''Progressive''
   \<and> getPartitioning example_dialog = ''Continuous''"
  using getPartitioning_progressive [of "example_dialog\<lparr>ui := example_ui\<lparr>walkStrategyCombo := ''Progressive''\<rparr>\<rparr>"]
    getPartitioning_progressive [of example_dialog]
  by (simp add: getStrategy_def example_dialog_def example_ui_def)

subsection \<open>C4: a scan on the device of the main window\<close>

text \<open>
  C4: in \<^verbatim>\<open>onToggleScan\<close>, when the scan button is checked, a banned device has been set
  and the description of the selected device is the banned one, a message box is shown,
  no start signal is emitted and the button is unchecked again; in every other case with
  the button checked the start signal is emitted; with the button unchecked the stop
  signal is emitted.
\<close>

theorem onToggleScan_banned:
  "(scanButton_checked (ui s) \<and> bannedDevice s \<noteq> []
      \<and> dev_desc (snd (getSelectedDevice s dev0)) = bannedDevice s \<longrightarrow>
        emitted (onToggleScan dev0 s)
          = emitted s @ [MessageBox_critical ''Panoramic spectrum error error''
              ''Scan cannot start because the selected device is in use by the main window.'']
        \<and> \<not> scanButton_checked (ui (onToggleScan dev0 s)))
   \<and> (scanButton_checked (ui s)
      \<and> \<not> (bannedDevice s \<noteq> [] \<and> dev_desc (snd (getSelectedDevice s dev0)) = bannedDevice s) \<longrightarrow>
        emitted (onToggleScan dev0 s) = emitted s @ [Emit_start]
        \<and> scanButton_checked (ui (onToggleScan dev0 s)))
   \<and> (\<not> scanButton_checked (ui s) \<longrightarrow>
        emitted (onToggleScan dev0 s) = emitted s @ [Emit_stop]
        \<and> \<not> scanButton_checked (ui (onToggleScan dev0 s)))"
  by (simp add: onToggleScan_def emit_def Let_def)

theorem onToggleScan_banned_witness:
  "emitted (onToggleScan default_device (setBannedDevice example_dialog ''RTL-SDR''))
     = [MessageBox_critical ''Panoramic spectrum error error''
          ''Scan cannot start because the selected device is in use by the main window.'']
   \<and> \<not> scanButton_checked (ui (onToggleScan default_device (setBannedDevice example_dialog ''RTL-SDR'')))
   \<and> emitted (onToggleScan default_device (setBannedDevice example_dialog ''HackRF'')) = [Emit_start]
   \<and> emitted (onToggleScan default_device example_dialog) = [Emit_start]
   \<and> emitted (onToggleScan default_device
        (example_dialog\<lparr>ui := example_ui\<lparr>scanButton_checked := False\<rparr>\<rparr>)) = [Emit_stop]"
  using onToggleScan_banned [of "setBannedDevice example_dialog ''RTL-SDR''" default_device]
    onToggleScan_banned [of "setBannedDevice example_dialog ''HackRF''" default_device]
    onToggleScan_banned [of example_dialog default_device]
    onToggleScan_banned [of "example_dialog\<lparr>ui := example_ui\<lparr>scanButton_checked := False\<rparr>\<rparr>" default_device]
  by (simp add: setBannedDevice_def getSelectedDevice_def example_dialog_def example_ui_def
      example_device_def)

subsection \<open>C7: the saved spectrum\<close>

lemma saved_redrawMeasures: "saved (redrawMeasures s) = saved s"
  by (simp add: redrawMeasures_def Let_def)

lemma SavedSpectrum_set_eq:
  "SavedSpectrum_set sp a b buf n = \<lparr>sp_start = a, sp_end = b, sp_data = take n buf\<rparr>"
  by (cases sp) (simp add: SavedSpectrum_set_def)

lemma sint_small:
  fixes w :: "64 word"
  assumes "uint w < 2 ^ 63"
  shows "sint w = uint w"
proof -
  have "- (2 ^ 63) \<le> uint w" 
    by (rule order_trans [of _ 0]) simp_all
  then have "signed_take_bit 63 (uint w) = uint w"
    using assms by (simp add: signed_take_bit_int_eq_self)
  then show ?thesis by (simp add: sint_uint)
qed

lemma saved_feed:
  "saved (feed rhz s fStart fEnd buf n)
     = \<lparr>sp_start = sint fStart, sp_end = sint fEnd, sp_data = take n buf\<rparr>"
  by (simp add: feed_def Let_def saved_redrawMeasures SavedSpectrum_set_eq)

text \<open>
  C7, as stated: after \<^verbatim>\<open>feed(freqStart, freqEnd, data, size)\<close> the saved start is
  \<^verbatim>\<open>freqStart\<close>, for every call. It is not: \<^verbatim>\<open>freqStart\<close> is a \<^verbatim>\<open>quint64\<close> and
  is saved after \<^verbatim>\<open>static_cast<qint64>\<close>, so that for \<open>2 ^ 64 - 100\<close> the saved
  start is \<open>- 100\<close>.
\<close>

theorem feed_saves_frame_counterexample:
  "uint (18446744073709551516 :: 64 word) = 18446744073709551516
   \<and> sp_start (saved (feed id example_dialog 18446744073709551516 100 [1, 2, 3, 4] 3)) = - 100
   \<and> sp_start (saved (feed id example_dialog 18446744073709551516 100 [1, 2, 3, 4] 3))
       \<noteq> uint (18446744073709551516 :: 64 word)"
  by (simp add: saved_feed)

text \<open>
  C7, amended: after \<^verbatim>\<open>feed(freqStart, freqEnd, data, size)\<close> the saved spectrum is
  exactly that frame, whatever was saved before and whether or not the range changed: its
  sample array is \<^verbatim>\<open>data[0..size)\<close>, its start and end are \<^verbatim>\<open>freqStart\<close> and
  \<^verbatim>\<open>freqEnd\<close> converted to \<^verbatim>\<open>qint64\<close>, which are the same 64 bits (converted back
  they are \<^verbatim>\<open>freqStart\<close> and \<^verbatim>\<open>freqEnd\<close>) and are the same numbers whenever
  \<^verbatim>\<open>freqStart\<close> and \<^verbatim>\<open>freqEnd\<close> are below \<open>2 ^ 63\<close>.
\<close>

theorem feed_saves_frame:
  "saved (feed rhz s fStart fEnd buf n)
     = \<lparr>sp_start = sint fStart, sp_end = sint fEnd, sp_data = take n buf\<rparr>
   \<and> cast_quint64 (sp_start (saved (feed rhz s fStart fEnd buf n))) = fStart
   \<and> cast_quint64 (sp_end (saved (feed rhz s fStart fEnd buf n))) = fEnd
   \<and> (uint fStart < 2 ^ 63 \<longrightarrow> sp_start (saved (feed rhz s fStart fEnd buf n)) = uint fStart)
   \<and> (uint fEnd < 2 ^ 63 \<longrightarrow> sp_end (saved (feed rhz s fStart fEnd buf n)) = uint fEnd)"
proof -
  have 1: "cast_quint64 (sint fStart) = fStart" "cast_quint64 (sint fEnd) = fEnd"
    by (simp_all add: cast_quint64_def)
  have 2: "uint fStart < 2 ^ 63 \<longrightarrow> sint fStart = uint fStart"
    "uint fEnd < 2 ^ 63 \<longrightarrow> sint fEnd = uint fEnd"
    using sint_small by blast+
  show ?thesis
    unfolding saved_feed SavedSpectrum.select_convs using 1 2 by blast
qed

theorem feed_saves_frame_witness:
  "uint (88000000 :: 64 word) < 2 ^ 63 \<and> uint (108000000 :: 64 word) < 2 ^ 63
   \<and> saved (feed id example_dialog 88000000 108000000 [1, 2, 3, 4] 3)
       = \<lparr>sp_start = 88000000, sp_end = 108000000, sp_data = [1, 2, 3]\<rparr>"
proof -
  have a: "uint (88000000 :: 64 word) < 2 ^ 63" and b: "uint (108000000 :: 64 word) < 2 ^ 63"
    by simp_all
  have c: "take 3 [1, 2, 3, 4 :: real] = [1, 2, 3]"
    by simp
  have d: "uint (88000000 :: 64 word) = 88000000" "uint (108000000 :: 64 word) = 108000000"
    by simp_all
  let ?r = "saved (feed id example_dialog 88000000 108000000 [1, 2, 3, 4] 3)"
  have e: "sp_start ?r = 88000000" "sp_end ?r = 108000000"
    using a b d feed_saves_frame [of id example_dialog 88000000 108000000 "[1, 2, 3, 4]" 3]
    by simp_all
  have f: "sp_data ?r = [1, 2, 3]"
    using c feed_saves_frame [of id example_dialog 88000000 108000000 "[1, 2, 3, 4]" 3]
    by simp
  have "?r = \<lparr>sp_start = 88000000, sp_end = 108000000, sp_data = [1, 2, 3]\<rparr>"
    using e f by (cases ?r) simp
  then show ?thesis using a b by blast
qed

subsection \<open>C8: the gain panel\<close>





lemma noGainLabel_clearGains:
  "noGainLabel (clearGains s) = (if gainControls s = [] then None else noGainLabel s)"
  by (simp add: clearGains_def Let_def)





subsection \<open>C6: exporting the saved spectrum\<close>

lemma fold_stream:
  "fold (\<lambda>p out. out @ f p) xs acc = acc @ concat (map f xs)"
  by (induction xs arbitrary: acc) simp_all

lemma exportToFile_eq:
  "exportToFile can_open show_float sp path fs
     = (if can_open path then (True, fs(path \<mapsto> export_text show_float sp)) else (False, fs))"
  by (simp add: exportToFile_def Let_def export_text_def fold_stream [where f = "\<lambda>p. show_float p @ '' ''"])

lemma onExport_fails:
  "export_fails can_open a \<Longrightarrow>
   onExport can_open show_float (a # answers) (s, fs)
     = onExport can_open show_float answers (emit (emit s FileDialog_exec) export_warning, fs)"
  by (cases a) (simp_all add: export_fails_def exportToFile_eq export_warning_def Let_def)

lemma onExport_done:
  "\<not> export_fails can_open a \<Longrightarrow>
   onExport can_open show_float (a # answers) (s, fs)
     = Some (emit s FileDialog_exec,
             case a of Rejected \<Rightarrow> fs
             | Accepted path \<Rightarrow> fs(path \<mapsto> export_text show_float (saved s)))"
  by (cases a) (simp_all add: export_fails_def exportToFile_eq Let_def emit_def)

lemma onExport_eq:
  "onExport can_open show_float answers (s, fs)
     = (case dropWhile (export_fails can_open) answers of
          [] \<Rightarrow> None
        | a # rest \<Rightarrow>
            Some (s\<lparr>emitted := emitted s
                     @ concat (replicate (length (takeWhile (export_fails can_open) answers))
                                [FileDialog_exec, export_warning])
                     @ [FileDialog_exec]\<rparr>,
                  case a of Rejected \<Rightarrow> fs
                  | Accepted path \<Rightarrow> fs(path \<mapsto> export_text show_float (saved s))))"
proof (induction answers arbitrary: s)
  case Nil
  show ?case by simp
next
  case (Cons a answers)
  show ?case
  proof (cases "export_fails can_open a")
    case True
    let ?s = "emit (emit s FileDialog_exec) export_warning"
    have lhs: "onExport can_open show_float (a # answers) (s, fs)
        = onExport can_open show_float answers (?s, fs)"
      by (rule onExport_fails [OF True])
    have dw: "dropWhile (export_fails can_open) (a # answers)
        = dropWhile (export_fails can_open) answers"
      and tw: "takeWhile (export_fails can_open) (a # answers)
        = a # takeWhile (export_fails can_open) answers"
      using True by simp_all
    show ?thesis
    proof (cases "dropWhile (export_fails can_open) answers")
      case Nil
      show ?thesis
        unfolding lhs dw tw Cons.IH [of ?s] Nil by simp
    next
      case (Cons b rest)
      show ?thesis
        unfolding lhs dw tw Cons.IH [of ?s] Cons by (cases b) (simp_all add: emit_def)
    qed
  next
    case False
    then show ?thesis
      by (simp add: onExport_done emit_def)
  qed
qed

text \<open>
  C6: \<^verbatim>\<open>exportToFile\<close> returns false exactly when the output file cannot be opened, and
  then writes nothing; otherwise it returns true and the file holds the stored start
  frequency as \<^verbatim>\<open>freqMin\<close>, the stored end frequency as \<^verbatim>\<open>freqMax\<close> and every stored
  sample, in order, in the array \<^verbatim>\<open>PSD\<close>. \<^verbatim>\<open>onExport\<close> shows a new file dialog after
  every failed export, and returns at the first answer that is a cancellation or a path
  whose export succeeds, and only then.
\<close>

theorem export_retry:
  "fst (exportToFile can_open show_float sp path fs) = can_open path
   \<and> (\<not> can_open path \<longrightarrow> snd (exportToFile can_open show_float sp path fs) = fs)
   \<and> (can_open path \<longrightarrow>
        snd (exportToFile can_open show_float sp path fs)
          = fs(path \<mapsto>
              ''%'' @ newline @ ''% Panoramic Spectrum file generated by SigDigger'' @ newline
              @ ''%'' @ newline @ newline
              @ ''freqMin = '' @ show_int (sp_start sp) @ '';'' @ newline
              @ ''freqMax = '' @ show_int (sp_end sp) @ '';'' @ newline
              @ ''PSD = [ '' @ concat (map (\<lambda>p. show_float p @ '' '') (sp_data sp))
              @ ''];'' @ newline))
   \<and> onExport can_open show_float answers (s, fs)
       = (case dropWhile (export_fails can_open) answers of
            [] \<Rightarrow> None
          | a # rest \<Rightarrow>
              Some (s\<lparr>emitted := emitted s
                       @ concat (replicate (length (takeWhile (export_fails can_open) answers))
                                  [FileDialog_exec, export_warning])
                       @ [FileDialog_exec]\<rparr>,
                    case a of Rejected \<Rightarrow> fs
                    | Accepted p \<Rightarrow> snd (exportToFile can_open show_float (saved s) p fs)))"
proof -
  have same: "(case a of Rejected \<Rightarrow> fs | Accepted p \<Rightarrow> fs(p \<mapsto> export_text show_float (saved s)))
      = (case a of Rejected \<Rightarrow> fs | Accepted p \<Rightarrow> snd (exportToFile can_open show_float (saved s) p fs))"
    if "dropWhile (export_fails can_open) answers = a # rest" for a rest
  proof -
    have "\<not> export_fails can_open a"
      using that hd_dropWhile [of "export_fails can_open" answers] by simp
    then show ?thesis
      by (cases a) (simp_all add: export_fails_def exportToFile_eq)
  qed
  have "onExport can_open show_float answers (s, fs)
       = (case dropWhile (export_fails can_open) answers of
            [] \<Rightarrow> None
          | a # rest \<Rightarrow>
              Some (s\<lparr>emitted := emitted s
                       @ concat (replicate (length (takeWhile (export_fails can_open) answers))
                                  [FileDialog_exec, export_warning])
                       @ [FileDialog_exec]\<rparr>,
                    case a of Rejected \<Rightarrow> fs
                    | Accepted p \<Rightarrow> snd (exportToFile can_open show_float (saved s) p fs)))"
  proof (cases "dropWhile (export_fails can_open) answers")
    case Nil
    show ?thesis
      unfolding onExport_eq Nil by simp
  next
    case (Cons b rest)
    show ?thesis
      unfolding onExport_eq Cons using same [OF Cons] by simp
  qed
  then show ?thesis
    by (simp add: exportToFile_eq export_text_def)
qed

theorem export_retry_witness:
  "fst (exportToFile (\<lambda>p. p = ''/tmp/a.m'') (\<lambda>x. ''1.5'') (saved example_dialog) ''/tmp/a.m'' Map.empty)
   \<and> \<not> fst (exportToFile (\<lambda>p. p = ''/tmp/a.m'') (\<lambda>x. ''1.5'') (saved example_dialog) ''/root/a.m'' Map.empty)
   \<and> snd (exportToFile (\<lambda>p. p = ''/tmp/a.m'') (\<lambda>x. ''1.5'') (saved example_dialog) ''/root/a.m'' Map.empty)
       = Map.empty
   \<and> onExport (\<lambda>p. p = ''/tmp/a.m'') (\<lambda>x. ''1.5'') [Accepted ''/root/a.m''] (example_dialog, Map.empty)
       = None
   \<and> map_option (\<lambda>r. emitted (fst r))
        (onExport (\<lambda>p. p = ''/tmp/a.m'') (\<lambda>x. ''1.5'')
           [Accepted ''/root/a.m'', Accepted ''/tmp/a.m'', Rejected] (example_dialog, Map.empty))
       = Some [FileDialog_exec, export_warning, FileDialog_exec]
   \<and> map_option (\<lambda>r. snd r ''/tmp/a.m'')
        (onExport (\<lambda>p. p = ''/tmp/a.m'') (\<lambda>x. ''1.5'')
           [Accepted ''/root/a.m'', Accepted ''/tmp/a.m'', Rejected]
           (example_dialog\<lparr>saved := \<lparr>sp_start = 88, sp_end = 108, sp_data = [1, 2]\<rparr>\<rparr>, Map.empty))
       = Some (Some (''%'' @ newline @ ''% Panoramic Spectrum file generated by SigDigger'' @ newline
              @ ''%'' @ newline @ newline
              @ ''freqMin = 88;'' @ newline @ ''freqMax = 108;'' @ newline
              @ ''PSD = [ 1.5 1.5 ];'' @ newline))"
proof -
  let ?open = "\<lambda>p. p = ''/tmp/a.m''" and ?fmt = "\<lambda>x :: real. ''1.5''"
  let ?s = "example_dialog\<lparr>saved := \<lparr>sp_start = 88, sp_end = 108, sp_data = [1, 2]\<rparr>\<rparr>"
  have n: "show_int 88 = ''88''" "show_int 108 = ''108''"
    by (simp_all add: show_int_def show_nat.simps digit_char_def)
  have 1: "fst (exportToFile ?open ?fmt (saved example_dialog) ''/tmp/a.m'' Map.empty)"
    using export_retry [of ?open ?fmt "saved example_dialog" "''/tmp/a.m''" Map.empty "[]" example_dialog]
    by (simp del: onExport.simps)
  have 2: "\<not> fst (exportToFile ?open ?fmt (saved example_dialog) ''/root/a.m'' Map.empty)
      \<and> snd (exportToFile ?open ?fmt (saved example_dialog) ''/root/a.m'' Map.empty) = Map.empty"
    using export_retry [of ?open ?fmt "saved example_dialog" "''/root/a.m''" Map.empty "[]" example_dialog]
    by (simp del: onExport.simps)
  have 3: "onExport ?open ?fmt [Accepted ''/root/a.m''] (example_dialog, Map.empty) = None"
    using export_retry [of ?open ?fmt "saved example_dialog" "''/root/a.m''" Map.empty
        "[Accepted ''/root/a.m'']" example_dialog]
    by (simp del: onExport.simps add: export_fails_def)
  have 4: "map_option (\<lambda>r. emitted (fst r))
        (onExport ?open ?fmt [Accepted ''/root/a.m'', Accepted ''/tmp/a.m'', Rejected]
           (example_dialog, Map.empty))
       = Some [FileDialog_exec, export_warning, FileDialog_exec]"
    using export_retry [of ?open ?fmt "saved example_dialog" "''/root/a.m''" Map.empty
        "[Accepted ''/root/a.m'', Accepted ''/tmp/a.m'', Rejected]" example_dialog]
    by (simp del: onExport.simps add: export_fails_def example_dialog_def)
  have 5: "map_option (\<lambda>r. snd r ''/tmp/a.m'')
        (onExport ?open ?fmt [Accepted ''/root/a.m'', Accepted ''/tmp/a.m'', Rejected] (?s, Map.empty))
       = Some (Some (''%'' @ newline @ ''% Panoramic Spectrum file generated by SigDigger'' @ newline
              @ ''%'' @ newline @ newline
              @ ''freqMin = 88;'' @ newline @ ''freqMax = 108;'' @ newline
              @ ''PSD = [ 1.5 1.5 ];'' @ newline))"
    using export_retry [of ?open ?fmt "saved ?s" "''/tmp/a.m''" Map.empty
        "[Accepted ''/root/a.m'', Accepted ''/tmp/a.m'', Rejected]" ?s]
    by (simp del: onExport.simps add: export_fails_def n)
  show ?thesis
    using 1 2 3 4 5 by (simp only: simp_thms)
qed

subsection \<open>C9: the LO offset when the centre frequency is set\<close>








subsection \<open>C5: band plans with malformed bands\<close>

lemma pushBands_eq:
  "pushBands bands t = t\<lparr>fat_bands := fat_bands t @ List.map_filter band_of bands\<rparr>"
proof (induction bands arbitrary: t)
  case Nil
  show ?case by (simp add: List.map_filter_simps)
next
  case (Cons b bands)
  show ?case
    by (cases "deserializeFrequencyBand b")
       (simp_all add: Cons.IH band_of_def pushBand_def List.map_filter_simps)
qed

lemma pushBands_new:
  "pushBands bands (FrequencyAllocationTable_new name) = loaded_table name bands"
  by (simp add: pushBands_eq FrequencyAllocationTable_new_def loaded_table_def)

lemma length_resize [simp]: "length (resize n xs) = n"
  by (simp add: resize_def)

lemma resize_Suc:
  "resize (Suc n) xs = resize n xs @ [if n < length xs then xs ! n else None]"
proof (cases "n < length xs")
  case True
  then show ?thesis
    by (simp add: resize_def take_Suc_conv_app_nth)
next
  case False
  then have "Suc n - length xs = Suc (n - length xs)"
    by simp
  with False show ?thesis
    by (simp add: resize_def replicate_append_same)
qed

lemma resize_Suc_update: "(resize (Suc n) xs)[n := v] = resize n xs @ [v]"
proof -
  have "(resize n xs @ [if n < length xs then xs ! n else None])[length (resize n xs) := v]
          = resize n xs @ [v]"
    by (rule list_update_length)
  then show ?thesis by (simp add: resize_Suc)
qed

lemma resize_length: "resize (length xs) xs = xs"
  by (simp add: resize_def)

lemma deserializeFATs_from_ok:
  assumes "\<forall>p \<in> set fats. \<exists>name bands. table_name p = Inr name \<and> table_bands p = Inr bands"
  shows "deserializeFATs_from fats ndx s
     = (s\<lparr>FATs := (if fats = [] then FATs s
                   else resize ndx (FATs s)
                        @ map (\<lambda>p. Some (loaded_table (projr (table_name p)) (projr (table_bands p)))) fats),
          ms_emitted := ms_emitted s @ map (\<lambda>p. Emit_newBandPlan (projr (table_name p))) fats\<rparr>,
        None)"
  using assms
proof (induction fats arbitrary: ndx s)
  case Nil
  show ?case by simp
next
  case (Cons p rest)
  from Cons.prems obtain name bands where
    n: "table_name p = Inr name" and b: "table_bands p = Inr bands"
    by auto
  from b have gf: "Object_getField p ''bands'' = Inr (OSet bands)"
    by (auto simp: table_bands_def split: sum.splits suscan_object.splits)
  from n have gn: "bind_exc (Object_getField p ''name'') Object_value = Inr name"
    by (simp add: table_name_def)
  let ?t = "loaded_table name bands"
  let ?s4 = "s\<lparr>FATs := resize ndx (FATs s) @ [Some ?t],
               ms_emitted := ms_emitted s @ [Emit_newBandPlan name]\<rparr>"
  have step: "deserializeFATs_from (p # rest) ndx s = deserializeFATs_from rest (Suc ndx) ?s4"
    by (simp add: gf gn Let_def pushBands_new resize_Suc_update)
  have rest: "\<forall>p \<in> set rest. \<exists>name bands. table_name p = Inr name \<and> table_bands p = Inr bands"
    using Cons.prems by simp
  have len: "resize (Suc ndx) (resize ndx (FATs s) @ [Some ?t]) = resize ndx (FATs s) @ [Some ?t]"
    using resize_length [of "resize ndx (FATs s) @ [Some ?t]"] by simp
  show ?case
    unfolding step Cons.IH [OF rest]
    by (simp add: n b len)
qed

text \<open>
  C5: in \<^verbatim>\<open>deserializeFATs\<close>, a band whose deserialization raises an exception is the
  only thing left out: for tables whose name and set of bands can be read, every table is
  created and registered with all its other bands, in order, and a \<^verbatim>\<open>newBandPlan\<close>
  signal is emitted for each table. (An exception raised outside the \<^verbatim>\<open>try\<close> block,
  while the name or the set of bands of a table is read, is not caught.)
\<close>

theorem deserializeFATs_skips_bands:
  assumes "\<forall>p \<in> set fats. \<exists>name bands. table_name p = Inr name \<and> table_bands p = Inr bands"
  shows "snd (deserializeFATs fats s) = None
    \<and> FATs (fst (deserializeFATs fats s))
        = (if fats = [] then FATs s
           else map (\<lambda>p. Some \<lparr>fat_name = projr (table_name p),
                          fat_bands = List.map_filter band_of (projr (table_bands p))\<rparr>) fats)
    \<and> ms_emitted (fst (deserializeFATs fats s))
        = ms_emitted s @ map (\<lambda>p. Emit_newBandPlan (projr (table_name p))) fats
    \<and> (\<forall>b. deserializeFrequencyBand b = Inl SuscanException \<longrightarrow> band_of b = None)
    \<and> (\<forall>b band. deserializeFrequencyBand b = Inr band \<longrightarrow> band_of b = Some band)"
proof -
  have "resize 0 (FATs s) = []"
    by (simp add: resize_def)
  then show ?thesis
    unfolding deserializeFATs_def deserializeFATs_from_ok [OF assms]
    by (simp add: loaded_table_def band_of_def)
qed

theorem deserializeFATs_skips_bands_witness:
  "table_name example_table = Inr ''ITU Region 1''
   \<and> deserializeFrequencyBand (OField (VString ''not a band'')) = Inl SuscanException
   \<and> snd (deserializeFATs [example_table] example_panel) = None
   \<and> FATs (fst (deserializeFATs [example_table] example_panel))
       = [Some \<lparr>fat_name = ''ITU Region 1'',
                fat_bands =
                  [\<lparr>fb_min = 87500000, fb_max = 108000000, fb_primary = ''BROADCASTING'',
                    fb_secondary = [], fb_footnotes = [], fb_color = ''#1f1f1f''\<rparr>,
                   \<lparr>fb_min = 144000000, fb_max = 146000000, fb_primary = ''AMATEUR'',
                    fb_secondary = [], fb_footnotes = [], fb_color = ''#1f1f1f''\<rparr>]\<rparr>]
   \<and> ms_emitted (fst (deserializeFATs [example_table] example_panel))
       = [Emit_newBandPlan ''ITU Region 1'']"
proof -
  have n: "table_name example_table = Inr ''ITU Region 1''"
    by (simp add: table_name_def example_table_def Object_getField_def Object_lookup_def
        Object_value_def)
  have b: "table_bands example_table
      = Inr [example_band 87500000 108000000 ''BROADCASTING'', OField (VString ''not a band''),
             example_band 144000000 146000000 ''AMATEUR'']"
    by (simp add: table_bands_def example_table_def Object_getField_def Object_lookup_def)
  have d: "deserializeFrequencyBand (OField (VString ''not a band'')) = Inl SuscanException"
    by (simp add: deserializeFrequencyBand_def Object_get_float_def Object_lookup_def)
  have e: "deserializeFrequencyBand (example_band lo hi name)
      = Inr \<lparr>fb_min = cast_qint64 lo, fb_max = cast_qint64 hi, fb_primary = name,
             fb_secondary = [], fb_footnotes = [], fb_color = ''#1f1f1f''\<rparr>" for lo hi name
    by (simp add: deserializeFrequencyBand_def example_band_def Object_get_float_def
        Object_get_string_def Object_lookup_def)
  have h: "\<forall>p \<in> set [example_table]. \<exists>name bands. table_name p = Inr name \<and> table_bands p = Inr bands"
    using n b by simp
  have m: "ms_emitted example_panel = []"
    by (simp add: example_panel_def)
  show ?thesis
    using n d m deserializeFATs_skips_bands [OF h, of example_panel]
    by (simp add: b e band_of_def List.map_filter_simps cast_qint64_def)
qed

subsection \<open>C1: the range after a zoom event\<close>

lemma cast_qint64_le: "x \<le> real_of_int k \<Longrightarrow> cast_qint64 x \<le> k"
  by (simp add: cast_qint64_def ceiling_le_iff floor_le_iff)

lemma cast_qint64_ge: "real_of_int k \<le> x \<Longrightarrow> k \<le> cast_qint64 x"
  by (simp add: cast_qint64_def le_ceiling_iff le_floor_iff)

lemma cast_qint64_above: "x \<le> 0 \<or> x \<in> \<int> \<Longrightarrow> x \<le> real_of_int (cast_qint64 x)"
  by (auto simp: cast_qint64_def)

lemma cast_qint64_below: "0 \<le> x \<or> x \<in> \<int> \<Longrightarrow> real_of_int (cast_qint64 x) \<le> x"
  by (auto simp: cast_qint64_def)

lemma setWfRange_frame:
  "emitted (setWfRange rhz s a b) = emitted s @ [Called_setWfRange a b]"
  "fixedFreqMode (setWfRange rhz s a b) = fixedFreqMode s"
  by (simp_all add: setWfRange_def set_waterfall_def emit_def Let_def)

lemma onNewZoomLevel_sliding:
  assumes "\<not> adjustingRange s" and "\<not> fixedFreqMode (onNewZoomLevel rhz s)"
  shows "emitted (onNewZoomLevel rhz s)
      = emitted s @ [Called_setWfRange (zoom_min s) (zoom_max s),
                     Emit_detailChanged (cast_quint64 (zoom_min s)) (cast_quint64 (zoom_max s)) False]"
  using assms
  by (simp add: onNewZoomLevel_def Let_def setWfRange_frame emit_def zoom_min_def zoom_max_def
      set_waterfall_def getMinFreq_def getMaxFreq_def getRelBw_def
      split: if_splits)

lemma onNewZoomLevel_fixed:
  assumes "\<not> adjustingRange s" and "fixedFreqMode (onNewZoomLevel rhz s)"
  shows "emitted (onNewZoomLevel rhz s)
      = emitted s @ [Called_setWfRange (zoom_centre rhz s - cdiv (wf_spanFreq (waterfall (ui s))) 2)
                       (zoom_centre rhz s + cdiv (wf_spanFreq (waterfall (ui s))) 2),
                     Emit_detailChanged
                       (cast_quint64 (zoom_centre rhz s - cdiv (wf_spanFreq (waterfall (ui s))) 2))
                       (cast_quint64 (zoom_centre rhz s + cdiv (wf_spanFreq (waterfall (ui s))) 2))
                       True]"
  using assms
  by (simp add: onNewZoomLevel_def Let_def setWfRange_frame emit_def zoom_min_def zoom_max_def
      zoom_centre_def set_waterfall_def getMinFreq_def getMaxFreq_def getRelBw_def
      split: if_splits)

lemma zoom_min_bounds:
  "cast_qint64 (getMinFreq s) \<le> zoom_min s"
  "getMinFreq s \<le> 0 \<or> getMinFreq s \<in> \<int> \<Longrightarrow> getMinFreq s \<le> real_of_int (zoom_min s)"
  by (auto simp: zoom_min_def Let_def cast_qint64_le cast_qint64_above)

lemma zoom_max_bounds:
  "zoom_max s \<le> cast_qint64 (getMaxFreq s)"
  "0 \<le> getMaxFreq s \<or> getMaxFreq s \<in> \<int> \<Longrightarrow> real_of_int (zoom_max s) \<le> getMaxFreq s"
  by (auto simp: zoom_max_def Let_def cast_qint64_ge cast_qint64_below)

text \<open>
  C1, as stated: after every zoom event the range given to \<^verbatim>\<open>setWfRange\<close> and emitted
  with \<^verbatim>\<open>detailChanged\<close> lies within \<^verbatim>\<open>getMinFreq()\<close> and \<^verbatim>\<open>getMaxFreq()\<close>, in both
  modes. It does not. With the limits 0 and 1000, the waterfall centred on 0 and a span of
  100, the event ends in fixed frequency mode with the range from -50 to 50. With the
  limits 0.5 and 1000, the waterfall centred on 100 and a span of 1000, it ends in sliding
  mode with the range from 0 to 600, whose start is the lower limit converted to an integer.
\<close>

theorem zoom_range_counterexample:
  "\<not> adjustingRange example_dialog
   \<and> getMinFreq example_dialog = 0
   \<and> emitted (onNewZoomLevel id example_dialog)
       = [Called_setWfRange (- 50) 50,
          Emit_detailChanged (cast_quint64 (- 50)) (cast_quint64 50) True]
   \<and> \<not> getMinFreq example_dialog \<le> real_of_int (- 50)
   \<and> \<not> adjustingRange example_dialog_wide
   \<and> getMinFreq example_dialog_wide = 1 / 2
   \<and> emitted (onNewZoomLevel id example_dialog_wide)
       = [Called_setWfRange 0 600, Emit_detailChanged (cast_quint64 0) (cast_quint64 600) False]
   \<and> \<not> getMinFreq example_dialog_wide \<le> real_of_int 0"
proof -
  have 1: "emitted (onNewZoomLevel id example_dialog)
       = [Called_setWfRange (- 50) 50,
          Emit_detailChanged (cast_quint64 (- 50)) (cast_quint64 50) True]"
    by (simp add: onNewZoomLevel_def Let_def setWfRange_frame emit_def cdiv_def cast_qint64_def
        getMinFreq_def getMaxFreq_def getRelBw_def set_waterfall_def
        example_dialog_def example_ui_def example_waterfall_def)
  have 2: "emitted (onNewZoomLevel id example_dialog_wide)
       = [Called_setWfRange 0 600, Emit_detailChanged (cast_quint64 0) (cast_quint64 600) False]"
    by (simp add: onNewZoomLevel_def Let_def setWfRange_frame emit_def cdiv_def cast_qint64_def
        getMinFreq_def getMaxFreq_def getRelBw_def set_waterfall_def example_dialog_wide_def
        example_dialog_def example_ui_def example_waterfall_def)
  show ?thesis
    using 1 2
    by (simp add: getMinFreq_def example_dialog_wide_def example_dialog_def example_ui_def)
qed

text \<open>
  C1, amended: for a zoom event handled with \<^verbatim>\<open>adjustingRange\<close> false that ends in
  sliding-range mode (\<^verbatim>\<open>fixedFreqMode\<close> false), the range \<open>[lo, hi]\<close> given to
  \<^verbatim>\<open>setWfRange\<close> and emitted with \<^verbatim>\<open>detailChanged\<close> lies within the limits converted to
  \<^verbatim>\<open>qint64\<close>; \<^verbatim>\<open>getMinFreq() <= lo\<close> holds when the lower limit is a whole number or
  not positive, and \<^verbatim>\<open>hi <= getMaxFreq()\<close> when the upper limit is a whole number or
  not negative. When the event ends in fixed frequency mode the range is the waterfall's
  centre minus and plus half the span, and no bound is promised.
\<close>

theorem zoom_range_sliding:
  assumes "\<not> adjustingRange s"
  shows "(\<not> fixedFreqMode (onNewZoomLevel rhz s) \<longrightarrow>
          (\<exists>lo hi. emitted (onNewZoomLevel rhz s)
               = emitted s @ [Called_setWfRange lo hi,
                              Emit_detailChanged (cast_quint64 lo) (cast_quint64 hi) False]
             \<and> cast_qint64 (getMinFreq s) \<le> lo \<and> hi \<le> cast_qint64 (getMaxFreq s)
             \<and> (getMinFreq s \<le> 0 \<or> getMinFreq s \<in> \<int> \<longrightarrow> getMinFreq s \<le> real_of_int lo)
             \<and> (0 \<le> getMaxFreq s \<or> getMaxFreq s \<in> \<int> \<longrightarrow> real_of_int hi \<le> getMaxFreq s)))
       \<and> (fixedFreqMode (onNewZoomLevel rhz s) \<longrightarrow>
          emitted (onNewZoomLevel rhz s)
            = emitted s @ [Called_setWfRange
                             (zoom_centre rhz s - cdiv (wf_spanFreq (waterfall (ui s))) 2)
                             (zoom_centre rhz s + cdiv (wf_spanFreq (waterfall (ui s))) 2),
                           Emit_detailChanged
                             (cast_quint64 (zoom_centre rhz s - cdiv (wf_spanFreq (waterfall (ui s))) 2))
                             (cast_quint64 (zoom_centre rhz s + cdiv (wf_spanFreq (waterfall (ui s))) 2))
                             True])"
proof (intro conjI impI)
  assume sliding: "\<not> fixedFreqMode (onNewZoomLevel rhz s)"
  show "\<exists>lo hi. emitted (onNewZoomLevel rhz s)
               = emitted s @ [Called_setWfRange lo hi,
                              Emit_detailChanged (cast_quint64 lo) (cast_quint64 hi) False]
             \<and> cast_qint64 (getMinFreq s) \<le> lo \<and> hi \<le> cast_qint64 (getMaxFreq s)
             \<and> (getMinFreq s \<le> 0 \<or> getMinFreq s \<in> \<int> \<longrightarrow> getMinFreq s \<le> real_of_int lo)
             \<and> (0 \<le> getMaxFreq s \<or> getMaxFreq s \<in> \<int> \<longrightarrow> real_of_int hi \<le> getMaxFreq s)"
    using onNewZoomLevel_sliding [OF assms sliding] zoom_min_bounds [of s] zoom_max_bounds [of s]
    by blast
next
  assume "fixedFreqMode (onNewZoomLevel rhz s)"
  then show "emitted (onNewZoomLevel rhz s)
            = emitted s @ [Called_setWfRange
                             (zoom_centre rhz s - cdiv (wf_spanFreq (waterfall (ui s))) 2)
                             (zoom_centre rhz s + cdiv (wf_spanFreq (waterfall (ui s))) 2),
                           Emit_detailChanged
                             (cast_quint64 (zoom_centre rhz s - cdiv (wf_spanFreq (waterfall (ui s))) 2))
                             (cast_quint64 (zoom_centre rhz s + cdiv (wf_spanFreq (waterfall (ui s))) 2))
                             True]"
    by (rule onNewZoomLevel_fixed [OF assms])
qed

theorem zoom_range_sliding_witness:
  "\<not> adjustingRange example_dialog_whole
   \<and> \<not> fixedFreqMode (onNewZoomLevel id example_dialog_whole)
   \<and> getMinFreq example_dialog_whole = 0 \<and> getMaxFreq example_dialog_whole = 500
   \<and> emitted (onNewZoomLevel id example_dialog_whole)
       = [Called_setWfRange 0 500, Emit_detailChanged 0 500 False]
   \<and> (\<exists>lo hi. emitted (onNewZoomLevel id example_dialog_whole)
               = [Called_setWfRange lo hi,
                  Emit_detailChanged (cast_quint64 lo) (cast_quint64 hi) False]
             \<and> 0 \<le> real_of_int lo \<and> real_of_int hi \<le> 500)"
proof -
  have a: "\<not> adjustingRange example_dialog_whole"
    by (simp add: example_dialog_whole_def example_dialog_def)
  have e: "emitted (onNewZoomLevel id example_dialog_whole)
       = [Called_setWfRange 0 500, Emit_detailChanged 0 500 False]"
    by (simp add: onNewZoomLevel_def Let_def setWfRange_frame emit_def cdiv_def cast_qint64_def
        cast_quint64_def getMinFreq_def getMaxFreq_def getRelBw_def set_waterfall_def
        example_dialog_whole_def example_dialog_def example_ui_def example_waterfall_def)
  have f: "\<not> fixedFreqMode (onNewZoomLevel id example_dialog_whole)"
    by (simp add: onNewZoomLevel_def Let_def setWfRange_frame emit_def cdiv_def cast_qint64_def
        getMinFreq_def getMaxFreq_def getRelBw_def set_waterfall_def
        example_dialog_whole_def example_dialog_def example_ui_def example_waterfall_def)
  have g: "getMinFreq example_dialog_whole = 0" "getMaxFreq example_dialog_whole = 500"
    "emitted example_dialog_whole = []"
    by (simp_all add: getMinFreq_def getMaxFreq_def example_dialog_whole_def example_dialog_def
        example_ui_def)
  have "\<exists>lo hi. emitted (onNewZoomLevel id example_dialog_whole)
               = [Called_setWfRange lo hi,
                  Emit_detailChanged (cast_quint64 lo) (cast_quint64 hi) False]
             \<and> 0 \<le> real_of_int lo \<and> real_of_int hi \<le> 500"
    using zoom_range_sliding [OF a, of id] f unfolding g by auto
  then show ?thesis
    using a e f g by blast
qed

end
